theory Spec2Isabelle
  imports Main
begin

section \<open>Python values, exceptions and text\<close>

text \<open>
  The development embeds the ReAct engine of \<^verbatim>\<open>react_agent_app.py\<close>
  (\<^verbatim>\<open>run_structured_react_engine\<close>, the \<^verbatim>\<open>Action\<close> schema and the tool list of
  \<^verbatim>\<open>get_tools\<close>).

  A Python \<^verbatim>\<open>str\<close> is modelled by \<^typ>\<open>string\<close> holding its UTF-8 encoding, so the
  Korean message literals of the source appear as byte lists; concatenation and
  equality of texts are those of the byte lists.

  A value of type \<^verbatim>\<open>Any\<close> (the \<^verbatim>\<open>tool_input\<close> of a decision, the result of a tool)
  is either a \<^verbatim>\<open>str\<close> or some other object of an arbitrary type \<open>'v\<close>. An f-string
  \<^verbatim>\<open>f"{x}"\<close> inserts a \<^verbatim>\<open>str\<close> unchanged and any other object through its
  \<^verbatim>\<open>__str__\<close>, which is the parameter \<open>object_str\<close>.

  An exception is carried with the text that \<^verbatim>\<open>str(e)\<close> gives for it, and with what
  decides whether \<^verbatim>\<open>except Exception\<close> catches it: \<open>PyException\<close> is an instance of
  \<^verbatim>\<open>Exception\<close>, \<open>PyBaseException\<close> an instance of \<^verbatim>\<open>BaseException\<close> that is not an
  \<^verbatim>\<open>Exception\<close> (\<^verbatim>\<open>SystemExit\<close>, \<^verbatim>\<open>KeyboardInterrupt\<close>, \<^verbatim>\<open>GeneratorExit\<close>).
\<close>

datatype pyexn = PyException string | PyBaseException string

fun exn_str :: "pyexn \<Rightarrow> string" where
  "exn_str (PyException s) = s"
| "exn_str (PyBaseException s) = s"

fun is_Exception :: "pyexn \<Rightarrow> bool" where
  "is_Exception (PyException s) = True"
| "is_Exception (PyBaseException s) = False"

datatype 'v pyval = PyStr string | PyObj 'v

fun py_format :: "('v \<Rightarrow> string) \<Rightarrow> 'v pyval \<Rightarrow> string" where
  "py_format object_str (PyStr s) = s"
| "py_format object_str (PyObj v) = object_str v"

fun is_str :: "'v pyval \<Rightarrow> bool" where
  "is_str (PyStr s) = True"
| "is_str (PyObj v) = False"

text \<open>\<^verbatim>\<open>sep.join(xs)\<close>\<close>

fun join :: "string \<Rightarrow> string list \<Rightarrow> string" where
  "join sep [] = []"
| "join sep [x] = x"
| "join sep (x # y # ys) = x @ sep @ join sep (y # ys)"

definition NL :: string where
  "NL = [CHR 0x0A]"

subsection \<open>The message literals of the engine\<close>

text \<open>The value returned after the last iteration (line 337); in English:
  "Maximum number of iterations reached, ending the task."\<close>

definition MSG_MAX_ITERATIONS :: string where
  "MSG_MAX_ITERATIONS =
    [CHR 0xEC, CHR 0xB5, CHR 0x9C, CHR 0xEB, CHR 0x8C, CHR 0x80] @ '' '' @ [CHR 0xEB,
     CHR 0xB0, CHR 0x98, CHR 0xEB, CHR 0xB3, CHR 0xB5] @ '' '' @ [CHR 0xED, CHR 0x9A,
     CHR 0x9F, CHR 0xEC, CHR 0x88, CHR 0x98, CHR 0xEC, CHR 0x97, CHR 0x90] @ '' '' @ [
     CHR 0xEB, CHR 0x8F, CHR 0x84, CHR 0xEB, CHR 0x8B, CHR 0xAC, CHR 0xED, CHR 0x95,
     CHR 0x98, CHR 0xEC, CHR 0x97, CHR 0xAC] @ '' '' @ [CHR 0xEC, CHR 0x9E, CHR 0x91,
     CHR 0xEC, CHR 0x97, CHR 0x85, CHR 0xEC, CHR 0x9D, CHR 0x84] @ '' '' @ [CHR 0xEC,
     CHR 0xA2, CHR 0x85, CHR 0xEB, CHR 0xA3, CHR 0x8C, CHR 0xED, CHR 0x95, CHR 0xA9,
     CHR 0xEB, CHR 0x8B, CHR 0x88, CHR 0xEB, CHR 0x8B, CHR 0xA4] @ ''.''"

text \<open>The prefix of the value returned by the outer handler (line 335); in English:
  "An error occurred while running the ReAct engine: "\<close>

definition MSG_ENGINE_ERROR :: string where
  "MSG_ENGINE_ERROR =
    ''ReAct '' @ [CHR 0xEC, CHR 0x97, CHR 0x94, CHR 0xEC, CHR 0xA7, CHR 0x84] @ '' '' @ [
     CHR 0xEC, CHR 0x8B, CHR 0xA4, CHR 0xED, CHR 0x96, CHR 0x89] @ '' '' @ [CHR 0xEC,
     CHR 0xA4, CHR 0x91] @ '' '' @ [CHR 0xEC, CHR 0x98, CHR 0xA4, CHR 0xEB, CHR 0xA5,
     CHR 0x98, CHR 0xEA, CHR 0xB0, CHR 0x80] @ '' '' @ [CHR 0xEB, CHR 0xB0, CHR 0x9C,
     CHR 0xEC, CHR 0x83, CHR 0x9D, CHR 0xED, CHR 0x96, CHR 0x88, CHR 0xEC, CHR 0x8A,
     CHR 0xB5, CHR 0xEB, CHR 0x8B, CHR 0x88, CHR 0xEB, CHR 0x8B, CHR 0xA4] @ '': ''"

text \<open>The prefix of the observation written by the inner handler (line 325); in English:
  "Error while running the tool: "\<close>

definition MSG_TOOL_ERROR :: string where
  "MSG_TOOL_ERROR =
    ''Tool '' @ [CHR 0xEC, CHR 0x8B, CHR 0xA4, CHR 0xED, CHR 0x96, CHR 0x89] @ '' '' @ [
     CHR 0xEC, CHR 0xA4, CHR 0x91] @ '' '' @ [CHR 0xEC, CHR 0x98, CHR 0xA4, CHR 0xEB,
     CHR 0xA5, CHR 0x98] @ '' '' @ [CHR 0xEB, CHR 0xB0, CHR 0x9C, CHR 0xEC, CHR 0x83,
     CHR 0x9D] @ '': ''"

text \<open>The observation of line 327, around the tool name; in English:
  "Error: '<name>' Tool cannot be found."\<close>

definition MSG_NOT_FOUND_PREFIX :: string where
  "MSG_NOT_FOUND_PREFIX =
    [CHR 0xEC, CHR 0x98, CHR 0xA4, CHR 0xEB, CHR 0xA5, CHR 0x98] @ '': '' @ [CHR 0x27]"

definition MSG_NOT_FOUND_SUFFIX :: string where
  "MSG_NOT_FOUND_SUFFIX =
    [CHR 0x27] @ '' Tool'' @ [CHR 0xEC, CHR 0x9D, CHR 0x84] @ '' '' @ [CHR 0xEC, CHR 0xB0,
     CHR 0xBE, CHR 0xEC, CHR 0x9D, CHR 0x84] @ '' '' @ [CHR 0xEC, CHR 0x88, CHR 0x98] @
     '' '' @ [CHR 0xEC, CHR 0x97, CHR 0x86, CHR 0xEC, CHR 0x8A, CHR 0xB5, CHR 0xEB,
     CHR 0x8B, CHR 0x88, CHR 0xEB, CHR 0x8B, CHR 0xA4] @ ''.''"

text \<open>The text returned for \<^verbatim>\<open>ask_user_tool\<close> (line 309), around the question; in English:
  "**Question**: <question>", a blank line, and "If you answer the question above, I
  will make a tailored plan from that information!"\<close>

definition MSG_ASK_PREFIX :: string where
  "MSG_ASK_PREFIX =
    [CHR 0xF0, CHR 0x9F, CHR 0x92, CHR 0xAC] @ '' **'' @ [CHR 0xEC, CHR 0xA7, CHR 0x88,
     CHR 0xEB, CHR 0xAC, CHR 0xB8] @ ''**: ''"

definition MSG_ASK_SUFFIX :: string where
  "MSG_ASK_SUFFIX =
    [CHR 0x0A, CHR 0x0A, CHR 0xEC, CHR 0x9C, CHR 0x84] @ '' '' @ [CHR 0xEC, CHR 0xA7,
     CHR 0x88, CHR 0xEB, CHR 0xAC, CHR 0xB8, CHR 0xEC, CHR 0x97, CHR 0x90] @ '' '' @ [
     CHR 0xEB, CHR 0x8B, CHR 0xB5, CHR 0xEB, CHR 0xB3, CHR 0x80, CHR 0xED, CHR 0x95,
     CHR 0xB4] @ '' '' @ [CHR 0xEC, CHR 0xA3, CHR 0xBC, CHR 0xEC, CHR 0x8B, CHR 0x9C,
     CHR 0xEB, CHR 0xA9, CHR 0xB4] @ '', '' @ [CHR 0xEA, CHR 0xB7, CHR 0xB8] @ '' '' @ [
     CHR 0xEC, CHR 0xA0, CHR 0x95, CHR 0xEB, CHR 0xB3, CHR 0xB4, CHR 0xEB, CHR 0xA5,
     CHR 0xBC] @ '' '' @ [CHR 0xEB, CHR 0xB0, CHR 0x94, CHR 0xED, CHR 0x83, CHR 0x95,
     CHR 0xEC, CHR 0x9C, CHR 0xBC, CHR 0xEB, CHR 0xA1, CHR 0x9C] @ '' '' @ [CHR 0xEB,
     CHR 0xA7, CHR 0x9E, CHR 0xEC, CHR 0xB6, CHR 0xA4, CHR 0xED, CHR 0x98, CHR 0x95] @ '' ''
     @ [CHR 0xEA, CHR 0xB3, CHR 0x84, CHR 0xED, CHR 0x9A, CHR 0x8D, CHR 0xEC, CHR 0x9D,
     CHR 0x84] @ '' '' @ [CHR 0xEC, CHR 0x84, CHR 0xB8, CHR 0xEC, CHR 0x9B, CHR 0x8C,
     CHR 0xEB, CHR 0x93, CHR 0x9C, CHR 0xEB, CHR 0xA6, CHR 0xAC, CHR 0xEA, CHR 0xB2,
     CHR 0xA0, CHR 0xEC, CHR 0x8A, CHR 0xB5, CHR 0xEB, CHR 0x8B, CHR 0x88, CHR 0xEB,
     CHR 0x8B, CHR 0xA4] @ ''!''"

section \<open>The data model\<close>

text \<open>The \<^verbatim>\<open>Action\<close> schema (lines 253-266): the structured decision of one iteration.\<close>

record 'v Action =
  thought :: string
  tool :: string
  tool_input :: "'v pyval"

text \<open>The values that the \<^verbatim>\<open>Literal\<close> type of the field \<^verbatim>\<open>tool\<close> admits, in the
  order of the source.\<close>

definition Action_tool_literals :: "string list" where
  "Action_tool_literals =
     [''tavily_search_results_json'',
      ''calculator_tool'',
      ''wolfram_alpha_tool'',
      ''blog_template_tool'',
      ''ask_user_tool'',
      ''create_study_plan_tool'',
      ''Final Answer'']"

text \<open>Validation of a decision against the schema: \<^verbatim>\<open>thought\<close> is a \<^verbatim>\<open>str\<close> and
  \<^verbatim>\<open>tool_input\<close> is \<^verbatim>\<open>Any\<close> by their types here, so what is left is the \<^verbatim>\<open>Literal\<close>.\<close>

definition Action_validates :: "'v Action \<Rightarrow> bool" where
  "Action_validates a = (tool a \<in> set Action_tool_literals)"

text \<open>
  A tool as the engine uses it: its \<^verbatim>\<open>name\<close> and its \<^verbatim>\<open>invoke\<close>. What the tool
  does is an external capability: \<open>invoke t i x\<close> is the outcome of the invocation
  made in iteration \<open>i\<close> with input \<open>x\<close>, a result or an exception.
\<close>

record 'v BaseTool =
  name :: string
  invoke :: "nat \<Rightarrow> 'v pyval \<Rightarrow> pyexn + 'v pyval"

text \<open>
  \<^verbatim>\<open>get_tools\<close> (lines 49-203). The six tools are listed in the order of the source;
  the search tool is named by its constructor argument, the others by the name of the
  decorated function. Their bodies are the parameters.
\<close>

definition get_tools ::
  "(nat \<Rightarrow> 'v pyval \<Rightarrow> pyexn + 'v pyval) \<Rightarrow> (nat \<Rightarrow> 'v pyval \<Rightarrow> pyexn + 'v pyval) \<Rightarrow>
   (nat \<Rightarrow> 'v pyval \<Rightarrow> pyexn + 'v pyval) \<Rightarrow> (nat \<Rightarrow> 'v pyval \<Rightarrow> pyexn + 'v pyval) \<Rightarrow>
   (nat \<Rightarrow> 'v pyval \<Rightarrow> pyexn + 'v pyval) \<Rightarrow> (nat \<Rightarrow> 'v pyval \<Rightarrow> pyexn + 'v pyval) \<Rightarrow>
   'v BaseTool list" where
  "get_tools search calculator wolfram_alpha blog_template ask_user create_study_plan =
     (let search_tool = \<lparr>name = ''tavily_search_results_json'', invoke = search\<rparr>;
          calculator_tool = \<lparr>name = ''calculator_tool'', invoke = calculator\<rparr>;
          wolfram_alpha_tool = \<lparr>name = ''wolfram_alpha_tool'', invoke = wolfram_alpha\<rparr>;
          blog_template_tool = \<lparr>name = ''blog_template_tool'', invoke = blog_template\<rparr>;
          ask_user_tool = \<lparr>name = ''ask_user_tool'', invoke = ask_user\<rparr>;
          create_study_plan_tool = \<lparr>name = ''create_study_plan_tool'', invoke = create_study_plan\<rparr>
      in [search_tool,
          calculator_tool,
          wolfram_alpha_tool,
          blog_template_tool,
          ask_user_tool,
          create_study_plan_tool])"

section \<open>The engine\<close>

text \<open>
  The two library functions that the loop body applies to its own data:
  \<^verbatim>\<open>Action.model_dump_json\<close>, which yields the JSON text of the decision or raises (a
  \<^verbatim>\<open>tool_input\<close> of type \<^verbatim>\<open>Any\<close> need not be serialisable), and the \<^verbatim>\<open>__str__\<close> of a
  non-\<^verbatim>\<open>str\<close> object, which is taken to yield a text for every object.
\<close>

record 'v pylib =
  model_dump_json :: "'v Action \<Rightarrow> pyexn + string"
  object_str :: "'v \<Rightarrow> string"

text \<open>
  The calls that a run makes on its collaborators, in order: the rendering of the
  prompt (with the \<^verbatim>\<open>intermediate_steps\<close> argument), the decision request (with the
  prompt) and the invocation of a tool (with its name and input). The log is what a mock
  of each collaborator would record; the engine never reads it.
\<close>

datatype 'v call =
  FormatCall string
| CreateCall string
| InvokeCall string "'v pyval"

fun is_format :: "'v call \<Rightarrow> bool" where
  "is_format (FormatCall s) = True"
| "is_format c = False"

fun is_create :: "'v call \<Rightarrow> bool" where
  "is_create (CreateCall p) = True"
| "is_create c = False"

fun is_invoke :: "'v call \<Rightarrow> bool" where
  "is_invoke (InvokeCall n x) = True"
| "is_invoke c = False"

record 'v run_state =
  intermediate_steps_str :: string
  calls :: "'v call list"

text \<open>How one pass of the loop body ends: it falls through to the next pass, it
  executes \<^verbatim>\<open>return\<close>, or an exception leaves it.\<close>

datatype 'v flow = Continue | Return "'v pyval" | Raise pyexn

text \<open>\<^verbatim>\<open>tool_map = {tool.name: tool for tool in _tools}\<close> (line 271): the entries are
  stored in list order, a later one replacing an earlier one with the same key.\<close>

definition build_tool_map :: "'v BaseTool list \<Rightarrow> (string \<rightharpoonup> 'v BaseTool)" where
  "build_tool_map tools = foldl (\<lambda>m t. m(name t \<mapsto> t)) Map.empty tools"

text \<open>Line 273.\<close>

definition render_history :: "'v pylib \<Rightarrow> (string \<times> 'v pyval) list \<Rightarrow> string" where
  "render_history lib chat_history =
     join NL (map (\<lambda>h. ''Human: '' @ fst h @ NL @ ''Assistant: '' @ py_format (object_str lib) (snd h))
                  chat_history)"

text \<open>
  Step 5 of the body (lines 312-327): the observation for a decision that is neither the
  final answer nor the question to the user, with the tool invocation it makes. The
  inner handler (line 324) turns an \<^verbatim>\<open>Exception\<close> of the invocation into the observation;
  any other exception leaves the inner \<^verbatim>\<open>try\<close> (\<open>Inl\<close>).
\<close>

definition observe ::
  "(string \<rightharpoonup> 'v BaseTool) \<Rightarrow> nat \<Rightarrow> 'v Action \<Rightarrow> (pyexn + 'v pyval) \<times> 'v call list" where
  "observe tool_map i action_obj =
     (case tool_map (tool action_obj) of
        Some tool_to_use \<Rightarrow>
          (let tool_input = tool_input action_obj
           in (case invoke tool_to_use i tool_input of
                 Inr observation \<Rightarrow> Inr observation
               | Inl e \<Rightarrow>
                   if is_Exception e then Inr (PyStr (MSG_TOOL_ERROR @ exn_str e)) else Inl e,
               [InvokeCall (tool action_obj) tool_input]))
      | None \<Rightarrow>
          (Inr (PyStr (MSG_NOT_FOUND_PREFIX @ tool action_obj @ MSG_NOT_FOUND_SUFFIX)), []))"

text \<open>
  The outer handler (lines 334-335) for an exception raised inside the \<^verbatim>\<open>try\<close> of line
  288: an \<^verbatim>\<open>Exception\<close> makes the run return the engine-error text, any other exception
  passes the handler and leaves the function.
\<close>

definition except_Exception :: "pyexn \<Rightarrow> 'v flow" where
  "except_Exception e =
     (if is_Exception e then Return (PyStr (MSG_ENGINE_ERROR @ exn_str e)) else Raise e)"

text \<open>
  One pass of the loop (lines 277-335). The prompt is rendered before the \<^verbatim>\<open>try\<close>, so
  an exception of the rendering leaves the function; everything from the decision
  request on is inside the \<^verbatim>\<open>try\<close>: the request, the tool invocation and the update of
  \<^verbatim>\<open>intermediate_steps_str\<close> (lines 330-332), whose f-string calls \<^verbatim>\<open>model_dump_json\<close>.
  \<open>structured_llm i prompt\<close> is the outcome of the decision request made in iteration
  \<open>i\<close>: a validated \<^verbatim>\<open>Action\<close>, or the exception of the request or of the validation.
  The Streamlit calls (lines 279-280 before the \<^verbatim>\<open>try\<close>; lines 297-299, 316-317 and
  322-323 inside it) only display values and are not part of the model: every statement
  below is about runs in which they come back without an exception.
\<close>

definition loop_body ::
  "'v pylib \<Rightarrow> string \<Rightarrow> string \<Rightarrow> (string \<rightharpoonup> 'v BaseTool) \<Rightarrow>
   (nat \<Rightarrow> string \<Rightarrow> pyexn + 'v Action) \<Rightarrow> (string \<Rightarrow> string \<Rightarrow> string \<Rightarrow> pyexn + string) \<Rightarrow>
   nat \<Rightarrow> 'v run_state \<Rightarrow> 'v flow \<times> 'v run_state" where
  "loop_body lib user_query history_str tool_map structured_llm prompt_template i st =
     (case prompt_template user_query history_str (intermediate_steps_str st) of
        Inl e \<Rightarrow> (Raise e, st\<lparr>calls := calls st @ [FormatCall (intermediate_steps_str st)]\<rparr>)
      | Inr prompt \<Rightarrow>
          (let st1 = st\<lparr>calls := calls st @ [FormatCall (intermediate_steps_str st), CreateCall prompt]\<rparr>
           in case structured_llm i prompt of
                Inl e \<Rightarrow> (except_Exception e, st1)
              | Inr action_obj \<Rightarrow>
                  if tool action_obj = ''Final Answer'' then
                    (Return (tool_input action_obj), st1)
                  else if tool action_obj = ''ask_user_tool'' then
                    (let question = tool_input action_obj
                     in (Return (PyStr (MSG_ASK_PREFIX @ py_format (object_str lib) question @ MSG_ASK_SUFFIX)), st1))
                  else
                    (case observe tool_map i action_obj of
                       (Inl e, invoked) \<Rightarrow>
                         (except_Exception e, st1\<lparr>calls := calls st1 @ invoked\<rparr>)
                     | (Inr observation, invoked) \<Rightarrow>
                         (case model_dump_json lib action_obj of
                            Inl e \<Rightarrow>
                              (except_Exception e, st1\<lparr>calls := calls st1 @ invoked\<rparr>)
                          | Inr json \<Rightarrow>
                              (Continue,
                               \<lparr>intermediate_steps_str =
                                  intermediate_steps_str st1
                                    @ NL @ ''Thought: '' @ thought action_obj
                                    @ NL @ ''Action: '' @ json
                                    @ NL @ ''Observation: '' @ py_format (object_str lib) observation,
                                calls = calls st1 @ invoked\<rparr>)))))"

text \<open>\<^verbatim>\<open>for i in range(10): ...\<close> followed by the \<^verbatim>\<open>return\<close> of line 337.\<close>

fun for_range ::
  "(nat \<Rightarrow> 'v run_state \<Rightarrow> 'v flow \<times> 'v run_state) \<Rightarrow> nat list \<Rightarrow> 'v run_state \<Rightarrow>
   (pyexn + 'v pyval) \<times> 'v run_state" where
  "for_range body [] st = (Inr (PyStr MSG_MAX_ITERATIONS), st)"
| "for_range body (i # is) st =
     (case body i st of
        (Continue, st') \<Rightarrow> for_range body is st'
      | (Return v, st') \<Rightarrow> (Inr v, st')
      | (Raise e, st') \<Rightarrow> (Inl e, st'))"

definition initial_state :: "'v run_state" where
  "initial_state = \<lparr>intermediate_steps_str = [], calls = []\<rparr>"

text \<open>The body of the loop with the locals of lines 271-273 in place.\<close>

definition engine_body ::
  "'v pylib \<Rightarrow> string \<Rightarrow> (string \<times> 'v pyval) list \<Rightarrow> 'v BaseTool list \<Rightarrow>
   (nat \<Rightarrow> string \<Rightarrow> pyexn + 'v Action) \<Rightarrow> (string \<Rightarrow> string \<Rightarrow> string \<Rightarrow> pyexn + string) \<Rightarrow>
   nat \<Rightarrow> 'v run_state \<Rightarrow> 'v flow \<times> 'v run_state" where
  "engine_body lib user_query chat_history tools structured_llm prompt_template =
     (let tool_map = build_tool_map tools;
          history_str = render_history lib chat_history
      in loop_body lib user_query history_str tool_map structured_llm prompt_template)"

text \<open>
  \<^verbatim>\<open>run_structured_react_engine\<close> (lines 270-337). The result is what the call
  returns (\<open>Inr\<close>) or the exception that leaves it (\<open>Inl\<close>), with the final state.
\<close>

definition run_structured_react_engine ::
  "'v pylib \<Rightarrow> string \<Rightarrow> (string \<times> 'v pyval) list \<Rightarrow> 'v BaseTool list \<Rightarrow>
   (nat \<Rightarrow> string \<Rightarrow> pyexn + 'v Action) \<Rightarrow> (string \<Rightarrow> string \<Rightarrow> string \<Rightarrow> pyexn + string) \<Rightarrow>
   (pyexn + 'v pyval) \<times> 'v run_state" where
  "run_structured_react_engine lib user_query chat_history tools structured_llm prompt_template =
     for_range (engine_body lib user_query chat_history tools structured_llm prompt_template)
       [0..<10] initial_state"

text \<open>
  The state after \<open>n\<close> completed passes: \<open>Some\<close> when each of the passes \<open>0, ..., n - 1\<close>
  fell through to the next one, \<open>None\<close> when one of them returned or raised.
\<close>

fun completed ::
  "(nat \<Rightarrow> 'v run_state \<Rightarrow> 'v flow \<times> 'v run_state) \<Rightarrow> nat \<Rightarrow> 'v run_state option" where
  "completed body 0 = Some initial_state"
| "completed body (Suc n) =
     (case completed body n of
        None \<Rightarrow> None
      | Some st \<Rightarrow>
          (case body n st of
             (Continue, st') \<Rightarrow> Some st'
           | (Return v, st') \<Rightarrow> None
           | (Raise e, st') \<Rightarrow> None))"

section \<open>Mock collaborators\<close>

text \<open>
  Stand-ins for the collaborators, used to run the engine on concrete inputs: a
  completion capability that answers from a script of decisions (and raises when the
  script is exhausted) or always with the same decision, tools that return or raise a
  fixed text, a library whose \<^verbatim>\<open>model_dump_json\<close> shows the tool name (and one where it
  raises on a \<^verbatim>\<open>tool_input\<close> that is not a \<^verbatim>\<open>str\<close>), a prompt template that concatenates
  its arguments, and one whose rendering raises.
\<close>

fun scripted :: "'v Action list \<Rightarrow> nat \<Rightarrow> string \<Rightarrow> pyexn + 'v Action" where
  "scripted [] i prompt = Inl (PyException ''StopIteration'')"
| "scripted (d # ds) 0 prompt = Inr d"
| "scripted (d # ds) (Suc i) prompt = scripted ds i prompt"

definition always :: "'v Action \<Rightarrow> nat \<Rightarrow> string \<Rightarrow> pyexn + 'v Action" where
  "always d i prompt = Inr d"

definition returning :: "string \<Rightarrow> nat \<Rightarrow> 'v pyval \<Rightarrow> pyexn + 'v pyval" where
  "returning s i x = Inr (PyStr s)"

definition exiting :: "string \<Rightarrow> nat \<Rightarrow> 'v pyval \<Rightarrow> pyexn + 'v pyval" where
  "exiting s i x = Inl (PyBaseException s)"

definition interrupted :: "nat \<Rightarrow> string \<Rightarrow> pyexn + 'v Action" where
  "interrupted i prompt = Inl (PyBaseException ''KeyboardInterrupt'')"

definition raising :: "string \<Rightarrow> nat \<Rightarrow> 'v pyval \<Rightarrow> pyexn + 'v pyval" where
  "raising s i x = Inl (PyException s)"

definition demo_lib :: "nat pylib" where
  "demo_lib = \<lparr>model_dump_json = (\<lambda>a. Inr (''{'' @ tool a @ ''}'')), object_str = (\<lambda>n. ''<object>'')\<rparr>"

definition strict_lib :: "nat pylib" where
  "strict_lib =
     \<lparr>model_dump_json =
        (\<lambda>a. if is_str (tool_input a) then Inr (''{'' @ tool a @ ''}'')
             else Inl (PyException ''PydanticSerializationError'')),
      object_str = (\<lambda>n. ''<object>'')\<rparr>"

definition demo_template :: "string \<Rightarrow> string \<Rightarrow> string \<Rightarrow> pyexn + string" where
  "demo_template user_query chat_history intermediate_steps =
     Inr (chat_history @ intermediate_steps @ user_query)"

definition broken_template :: "string \<Rightarrow> string \<Rightarrow> string \<Rightarrow> pyexn + string" where
  "broken_template user_query chat_history intermediate_steps = Inl (PyException ''KeyError'')"

definition demo_tools :: "nat BaseTool list" where
  "demo_tools = get_tools (returning ''[]'') (returning ''4'') (raising ''HTTP Error 503'')
                  (returning ''## title'') (returning ''?'') (returning ''plan'')"

definition exit_tools :: "nat BaseTool list" where
  "exit_tools = get_tools (returning ''[]'') (exiting ''SystemExit'') (raising ''HTTP Error 503'')
                  (returning ''## title'') (returning ''?'') (returning ''plan'')"

definition calculate :: "nat Action" where
  "calculate = \<lparr>thought = ''compute'', tool = ''calculator_tool'', tool_input = PyStr ''2+2''\<rparr>"

definition final_answer :: "nat Action" where
  "final_answer = \<lparr>thought = ''done'', tool = ''Final Answer'', tool_input = PyStr ''2+2 = 4''\<rparr>"

definition calculate_object :: "nat Action" where
  "calculate_object = \<lparr>thought = ''compute'', tool = ''calculator_tool'', tool_input = PyObj 4\<rparr>"

definition ask_exam :: "nat Action" where
  "ask_exam = \<lparr>thought = ''need more information'', tool = ''ask_user_tool'',
                tool_input = PyStr ''Which exam?''\<rparr>"

definition ask_wolfram :: "nat Action" where
  "ask_wolfram = \<lparr>thought = ''integrate'', tool = ''wolfram_alpha_tool'', tool_input = PyStr ''int x dx''\<rparr>"

definition final_number :: "nat Action" where
  "final_number = \<lparr>thought = ''done'', tool = ''Final Answer'', tool_input = PyObj 4\<rparr>"

definition first_lookup :: "nat BaseTool" where
  "first_lookup = \<lparr>name = ''lookup'', invoke = returning ''first''\<rparr>"

definition second_lookup :: "nat BaseTool" where
  "second_lookup = \<lparr>name = ''lookup'', invoke = returning ''second''\<rparr>"

definition use_lookup :: "nat Action" where
  "use_lookup = \<lparr>thought = ''look it up'', tool = ''lookup'', tool_input = PyStr ''isabelle''\<rparr>"

text \<open>The trace and the state after a first pass that runs the calculator, and after a
  second pass in which the invocation of \<^verbatim>\<open>wolfram_alpha_tool\<close> raises.\<close>

definition trace_after_calculate :: string where
  "trace_after_calculate =
     NL @ ''Thought: compute'' @ NL @ ''Action: {calculator_tool}'' @ NL @ ''Observation: 4''"

definition state_after_calculate :: "nat run_state" where
  "state_after_calculate =
     \<lparr>intermediate_steps_str = trace_after_calculate,
      calls = [FormatCall [], CreateCall ''2+2?'', InvokeCall ''calculator_tool'' (PyStr ''2+2'')]\<rparr>"


section \<open>Properties of the loop\<close>

subsection \<open>The tool map and the observation\<close>

text \<open>
  The keys of the tool map are the names of the tools, and a name resolves to the last
  tool of the list that has it.
\<close>

lemma build_tool_map_foldl_dom:
  "dom (foldl (\<lambda>m t. m(name t \<mapsto> t)) m0 tools) = dom m0 \<union> name ` set tools"
  by (induction tools arbitrary: m0) auto

lemma dom_build_tool_map: "dom (build_tool_map tools) = name ` set tools"
  by (simp add: build_tool_map_def build_tool_map_foldl_dom)

lemma find_append_cases:
  "List.find P (xs @ ys) = (case List.find P xs of None \<Rightarrow> List.find P ys | Some x \<Rightarrow> Some x)"
  by (induction xs) auto

lemma foldl_tool_map_find:
  "foldl (\<lambda>m t. m(name t \<mapsto> t)) m0 tools nm =
     (case List.find (\<lambda>t. name t = nm) (rev tools) of None \<Rightarrow> m0 nm | Some t \<Rightarrow> Some t)"
proof (induction tools arbitrary: m0)
  case Nil
  then show ?case by simp
next
  case (Cons t ts)
  have "foldl (\<lambda>m t. m(name t \<mapsto> t)) m0 (t # ts) nm =
        foldl (\<lambda>m t. m(name t \<mapsto> t)) (m0(name t \<mapsto> t)) ts nm"
    by (simp only: foldl_Cons)
  also have "\<dots> = (case List.find (\<lambda>t. name t = nm) (rev ts) of
                      None \<Rightarrow> (m0(name t \<mapsto> t)) nm | Some t \<Rightarrow> Some t)"
    by (rule Cons.IH)
  also have "\<dots> = (case List.find (\<lambda>t. name t = nm) (rev (t # ts)) of
                      None \<Rightarrow> m0 nm | Some t \<Rightarrow> Some t)"
    by (simp add: find_append_cases split: option.splits)
  finally show ?case .
qed

lemma build_tool_map_find:
  "build_tool_map tools nm = List.find (\<lambda>t. name t = nm) (rev tools)"
  by (simp add: build_tool_map_def foldl_tool_map_find split: option.splits)

lemma build_tool_map_name:
  "build_tool_map tools nm = Some t \<Longrightarrow> name t = nm \<and> t \<in> set tools"
proof -
  assume "build_tool_map tools nm = Some t"
  then have f: "List.find (\<lambda>t. name t = nm) (rev tools) = Some t"
    by (simp add: build_tool_map_find)
  then obtain i where "i < length (rev tools)" and "name (rev tools ! i) = nm"
    and "t = rev tools ! i"
    by (auto simp: find_Some_iff)
  then have "name t = nm" and "t \<in> set (rev tools)"
    using nth_mem [of i "rev tools"] by auto
  then show ?thesis by simp
qed

lemma observe_not_found:
  "tool a \<notin> name ` set tools \<Longrightarrow>
   observe (build_tool_map tools) i a
     = (Inr (PyStr (MSG_NOT_FOUND_PREFIX @ tool a @ MSG_NOT_FOUND_SUFFIX)), [])"
proof -
  assume "tool a \<notin> name ` set tools"
  then have "tool a \<notin> dom (build_tool_map tools)"
    by (simp add: dom_build_tool_map)
  then have "build_tool_map tools (tool a) = None" by blast
  then show ?thesis by (simp add: observe_def)
qed

lemma observe_found:
  "build_tool_map tools (tool a) = Some t \<Longrightarrow>
   observe (build_tool_map tools) i a
     = (case invoke t i (tool_input a) of
          Inr observation \<Rightarrow> Inr observation
        | Inl e \<Rightarrow> if is_Exception e then Inr (PyStr (MSG_TOOL_ERROR @ exn_str e)) else Inl e,
        [InvokeCall (tool a) (tool_input a)])"
  by (simp add: observe_def Let_def)

lemma observe_calls:
  "filter is_format (snd (observe tm i a)) = [] \<and> filter is_create (snd (observe tm i a)) = []"
  by (simp add: observe_def Let_def split: option.splits)

subsection \<open>The cases of one pass\<close>

text \<open>A pass ends in one of seven ways, in the order of the source.\<close>

lemma engine_body_prompt_raises:
  assumes "prompt_template user_query (render_history lib chat_history) (intermediate_steps_str st) = Inl e"
  shows "engine_body lib user_query chat_history tools structured_llm prompt_template i st =
           (Raise e, st\<lparr>calls := calls st @ [FormatCall (intermediate_steps_str st)]\<rparr>)"
  using assms by (simp add: engine_body_def loop_body_def)

lemma engine_body_request_raises:
  assumes "prompt_template user_query (render_history lib chat_history) (intermediate_steps_str st) = Inr prompt"
    and "structured_llm i prompt = Inl e"
  shows "engine_body lib user_query chat_history tools structured_llm prompt_template i st =
           (except_Exception e,
            st\<lparr>calls := calls st @ [FormatCall (intermediate_steps_str st), CreateCall prompt]\<rparr>)"
  using assms by (simp add: engine_body_def loop_body_def)

lemma engine_body_final_answer:
  assumes "prompt_template user_query (render_history lib chat_history) (intermediate_steps_str st) = Inr prompt"
    and "structured_llm i prompt = Inr a"
    and "tool a = ''Final Answer''"
  shows "engine_body lib user_query chat_history tools structured_llm prompt_template i st =
           (Return (tool_input a),
            st\<lparr>calls := calls st @ [FormatCall (intermediate_steps_str st), CreateCall prompt]\<rparr>)"
  using assms by (simp add: engine_body_def loop_body_def)

lemma engine_body_ask_user:
  assumes "prompt_template user_query (render_history lib chat_history) (intermediate_steps_str st) = Inr prompt"
    and "structured_llm i prompt = Inr a"
    and "tool a = ''ask_user_tool''"
  shows "engine_body lib user_query chat_history tools structured_llm prompt_template i st =
           (Return (PyStr (MSG_ASK_PREFIX @ py_format (object_str lib) (tool_input a) @ MSG_ASK_SUFFIX)),
            st\<lparr>calls := calls st @ [FormatCall (intermediate_steps_str st), CreateCall prompt]\<rparr>)"
  using assms by (simp add: engine_body_def loop_body_def)

lemma engine_body_tool_escapes:
  assumes "prompt_template user_query (render_history lib chat_history) (intermediate_steps_str st) = Inr prompt"
    and "structured_llm i prompt = Inr a"
    and "tool a \<noteq> ''Final Answer''"
    and "tool a \<noteq> ''ask_user_tool''"
    and "observe (build_tool_map tools) i a = (Inl e, invoked)"
  shows "engine_body lib user_query chat_history tools structured_llm prompt_template i st =
           (except_Exception e,
            st\<lparr>calls := calls st @ [FormatCall (intermediate_steps_str st), CreateCall prompt] @ invoked\<rparr>)"
  using assms by (simp add: engine_body_def loop_body_def)

lemma engine_body_dump_raises:
  assumes "prompt_template user_query (render_history lib chat_history) (intermediate_steps_str st) = Inr prompt"
    and "structured_llm i prompt = Inr a"
    and "tool a \<noteq> ''Final Answer''"
    and "tool a \<noteq> ''ask_user_tool''"
    and "observe (build_tool_map tools) i a = (Inr observation, invoked)"
    and "model_dump_json lib a = Inl e"
  shows "engine_body lib user_query chat_history tools structured_llm prompt_template i st =
           (except_Exception e,
            st\<lparr>calls := calls st @ [FormatCall (intermediate_steps_str st), CreateCall prompt] @ invoked\<rparr>)"
  using assms by (simp add: engine_body_def loop_body_def)

lemma engine_body_recorded:
  assumes "prompt_template user_query (render_history lib chat_history) (intermediate_steps_str st) = Inr prompt"
    and "structured_llm i prompt = Inr a"
    and "tool a \<noteq> ''Final Answer''"
    and "tool a \<noteq> ''ask_user_tool''"
    and "observe (build_tool_map tools) i a = (Inr observation, invoked)"
    and "model_dump_json lib a = Inr json"
  shows "engine_body lib user_query chat_history tools structured_llm prompt_template i st =
           (Continue,
            \<lparr>intermediate_steps_str =
               intermediate_steps_str st
                 @ NL @ ''Thought: '' @ thought a
                 @ NL @ ''Action: '' @ json
                 @ NL @ ''Observation: '' @ py_format (object_str lib) observation,
             calls = calls st @ [FormatCall (intermediate_steps_str st), CreateCall prompt] @ invoked\<rparr>)"
  using assms by (simp add: engine_body_def loop_body_def)

lemma engine_body_cases:
  obtains
    (prompt_raises) e where "prompt_template user_query (render_history lib chat_history) (intermediate_steps_str st) = Inl e"
  | (request_raises) prompt e where "prompt_template user_query (render_history lib chat_history) (intermediate_steps_str st) = Inr prompt" and "structured_llm i prompt = Inl e"
  | (final_answer) prompt a where "prompt_template user_query (render_history lib chat_history) (intermediate_steps_str st) = Inr prompt" and "structured_llm i prompt = Inr a"
      and "tool a = ''Final Answer''"
  | (ask_user) prompt a where "prompt_template user_query (render_history lib chat_history) (intermediate_steps_str st) = Inr prompt" and "structured_llm i prompt = Inr a"
      and "tool a \<noteq> ''Final Answer''" and "tool a = ''ask_user_tool''"
  | (tool_escapes) prompt a e invoked where "prompt_template user_query (render_history lib chat_history) (intermediate_steps_str st) = Inr prompt" and "structured_llm i prompt = Inr a"
      and "tool a \<noteq> ''Final Answer''" and "tool a \<noteq> ''ask_user_tool''"
      and "observe (build_tool_map tools) i a = (Inl e, invoked)"
  | (dump_raises) prompt a observation invoked e where "prompt_template user_query (render_history lib chat_history) (intermediate_steps_str st) = Inr prompt"
      and "structured_llm i prompt = Inr a"
      and "tool a \<noteq> ''Final Answer''" and "tool a \<noteq> ''ask_user_tool''"
      and "observe (build_tool_map tools) i a = (Inr observation, invoked)"
      and "model_dump_json lib a = Inl e"
  | (recorded) prompt a observation invoked json where "prompt_template user_query (render_history lib chat_history) (intermediate_steps_str st) = Inr prompt"
      and "structured_llm i prompt = Inr a"
      and "tool a \<noteq> ''Final Answer''" and "tool a \<noteq> ''ask_user_tool''"
      and "observe (build_tool_map tools) i a = (Inr observation, invoked)"
      and "model_dump_json lib a = Inr json"
proof (cases "prompt_template user_query (render_history lib chat_history) (intermediate_steps_str st)")
  case (Inl e)
  then show ?thesis by (rule prompt_raises)
next
  case (Inr prompt)
  note p = this
  show ?thesis
  proof (cases "structured_llm i prompt")
    case (Inl e)
    with p show ?thesis by (rule request_raises)
  next
    case (Inr a)
    note l = this
    show ?thesis
    proof (cases "tool a = ''Final Answer''")
      case True
      with p l show ?thesis by (rule final_answer)
    next
      case False
      note f = this
      show ?thesis
      proof (cases "tool a = ''ask_user_tool''")
        case True
        with p l f show ?thesis by (rule ask_user)
      next
        case False
        note u = this
        obtain r invoked where o: "observe (build_tool_map tools) i a = (r, invoked)"
          by (cases "observe (build_tool_map tools) i a")
        show ?thesis
        proof (cases r)
          case (Inl e)
          with p l f u o show ?thesis by (blast intro: tool_escapes)
        next
          case (Inr observation)
          note r = this
          show ?thesis
          proof (cases "model_dump_json lib a")
            case (Inl e)
            with p l f u o r show ?thesis by (blast intro: dump_raises)
          next
            case (Inr json)
            with p l f u o r show ?thesis by (blast intro: recorded)
          qed
        qed
      qed
    qed
  qed
qed

text \<open>Conversely, how a pass ended tells which case it was.\<close>

lemma except_Exception_not_Continue:
  "except_Exception e \<noteq> Continue" "Continue \<noteq> except_Exception e"
  by (simp_all add: except_Exception_def)

lemma except_Exception_Return:
  "except_Exception e = Return v \<Longrightarrow> is_str v"
  "Return v = except_Exception e \<Longrightarrow> is_str v"
  by (auto simp: except_Exception_def split: if_splits)

lemma engine_body_ContinueD:
  assumes "engine_body lib user_query chat_history tools structured_llm prompt_template i st = (Continue, st')"
  obtains prompt a observation invoked json where
    "prompt_template user_query (render_history lib chat_history) (intermediate_steps_str st) = Inr prompt"
    and "structured_llm i prompt = Inr a"
    and "tool a \<noteq> ''Final Answer''" and "tool a \<noteq> ''ask_user_tool''"
    and "observe (build_tool_map tools) i a = (Inr observation, invoked)"
    and "model_dump_json lib a = Inr json"
    and "st' = \<lparr>intermediate_steps_str =
               intermediate_steps_str st
                 @ NL @ ''Thought: '' @ thought a
                 @ NL @ ''Action: '' @ json
                 @ NL @ ''Observation: '' @ py_format (object_str lib) observation,
             calls = calls st @ [FormatCall (intermediate_steps_str st), CreateCall prompt] @ invoked\<rparr>"
proof (cases rule: engine_body_cases [where prompt_template = prompt_template and user_query = user_query
    and lib = lib and chat_history = chat_history and st = st and structured_llm = structured_llm
    and i = i and tools = tools])
  case (prompt_raises e)
  then show ?thesis using assms by (simp add: engine_body_prompt_raises)
next
  case (request_raises prompt e)
  then show ?thesis using assms by (simp add: engine_body_request_raises except_Exception_not_Continue)
next
  case (final_answer prompt a)
  then show ?thesis using assms by (simp add: engine_body_final_answer)
next
  case (ask_user prompt a)
  then show ?thesis using assms by (simp add: engine_body_ask_user)
next
  case (tool_escapes prompt a e invoked)
  then have "engine_body lib user_query chat_history tools structured_llm prompt_template i st =
           (except_Exception e,
            st\<lparr>calls := calls st @ [FormatCall (intermediate_steps_str st), CreateCall prompt] @ invoked\<rparr>)"
    by (rule engine_body_tool_escapes)
  then show ?thesis using assms by (simp add: except_Exception_not_Continue)
next
  case (dump_raises prompt a observation invoked e)
  then have "engine_body lib user_query chat_history tools structured_llm prompt_template i st =
           (except_Exception e,
            st\<lparr>calls := calls st @ [FormatCall (intermediate_steps_str st), CreateCall prompt] @ invoked\<rparr>)"
    by (rule engine_body_dump_raises)
  then show ?thesis using assms by (simp add: except_Exception_not_Continue)
next
  case (recorded prompt a observation invoked json)
  then have "engine_body lib user_query chat_history tools structured_llm prompt_template i st =
           (Continue,
            \<lparr>intermediate_steps_str =
               intermediate_steps_str st
                 @ NL @ ''Thought: '' @ thought a
                 @ NL @ ''Action: '' @ json
                 @ NL @ ''Observation: '' @ py_format (object_str lib) observation,
             calls = calls st @ [FormatCall (intermediate_steps_str st), CreateCall prompt] @ invoked\<rparr>)"
    by (rule engine_body_recorded)
  with assms recorded show ?thesis by (auto intro: that)
qed

lemma engine_body_ReturnD:
  assumes "fst (engine_body lib user_query chat_history tools structured_llm prompt_template i st) = Return v"
  shows "is_str v \<or> (\<exists>prompt a. structured_llm i prompt = Inr a \<and> tool a = ''Final Answer'' \<and> v = tool_input a)"
proof (cases rule: engine_body_cases [where prompt_template = prompt_template and user_query = user_query
    and lib = lib and chat_history = chat_history and st = st and structured_llm = structured_llm
    and i = i and tools = tools])
  case (prompt_raises e)
  then show ?thesis using assms by (simp add: engine_body_prompt_raises)
next
  case (request_raises prompt e)
  then show ?thesis using assms by (simp add: engine_body_request_raises except_Exception_Return)
next
  case (final_answer prompt a)
  then show ?thesis using assms by (auto simp: engine_body_final_answer)
next
  case (ask_user prompt a)
  then show ?thesis using assms by (auto simp: engine_body_ask_user)
next
  case (tool_escapes prompt a e invoked)
  then have "engine_body lib user_query chat_history tools structured_llm prompt_template i st =
           (except_Exception e,
            st\<lparr>calls := calls st @ [FormatCall (intermediate_steps_str st), CreateCall prompt] @ invoked\<rparr>)"
    by (rule engine_body_tool_escapes)
  then show ?thesis using assms by (simp add: except_Exception_Return)
next
  case (dump_raises prompt a observation invoked e)
  then have "engine_body lib user_query chat_history tools structured_llm prompt_template i st =
           (except_Exception e,
            st\<lparr>calls := calls st @ [FormatCall (intermediate_steps_str st), CreateCall prompt] @ invoked\<rparr>)"
    by (rule engine_body_dump_raises)
  then show ?thesis using assms by (simp add: except_Exception_Return)
next
  case (recorded prompt a observation invoked json)
  then have "engine_body lib user_query chat_history tools structured_llm prompt_template i st =
           (Continue,
            \<lparr>intermediate_steps_str =
               intermediate_steps_str st
                 @ NL @ ''Thought: '' @ thought a
                 @ NL @ ''Action: '' @ json
                 @ NL @ ''Observation: '' @ py_format (object_str lib) observation,
             calls = calls st @ [FormatCall (intermediate_steps_str st), CreateCall prompt] @ invoked\<rparr>)"
    by (rule engine_body_recorded)
  then show ?thesis using assms by simp
qed


subsection \<open>Completed passes and the rest of the loop\<close>

text \<open>
  After \<open>n\<close> completed passes the run is the rest of the loop from the state reached.
\<close>

lemma completed_SucD:
  assumes "completed body (Suc n) = Some st'"
  obtains st where "completed body n = Some st" and "body n st = (Continue, st')"
  using assms by (auto split: option.splits prod.splits flow.splits)

lemma completed_Suc:
  assumes "completed (engine_body lib user_query chat_history tools structured_llm prompt_template) k = Some st"
    and "prompt_template user_query (render_history lib chat_history) (intermediate_steps_str st) = Inr prompt"
    and "structured_llm k prompt = Inr a"
    and "tool a \<noteq> ''Final Answer''"
    and "tool a \<noteq> ''ask_user_tool''"
    and "observe (build_tool_map tools) k a = (Inr observation, invoked)"
    and "model_dump_json lib a = Inr json"
  shows "completed (engine_body lib user_query chat_history tools structured_llm prompt_template) (Suc k) =
           Some \<lparr>intermediate_steps_str =
               intermediate_steps_str st
                 @ NL @ ''Thought: '' @ thought a
                 @ NL @ ''Action: '' @ json
                 @ NL @ ''Observation: '' @ py_format (object_str lib) observation,
             calls = calls st @ [FormatCall (intermediate_steps_str st), CreateCall prompt] @ invoked\<rparr>"
proof -
  from assms(2-7)
  have "engine_body lib user_query chat_history tools structured_llm prompt_template k st =
          (Continue,
           \<lparr>intermediate_steps_str =
               intermediate_steps_str st
                 @ NL @ ''Thought: '' @ thought a
                 @ NL @ ''Action: '' @ json
                 @ NL @ ''Observation: '' @ py_format (object_str lib) observation,
             calls = calls st @ [FormatCall (intermediate_steps_str st), CreateCall prompt] @ invoked\<rparr>)"
    by (rule engine_body_recorded)
  with assms(1) show ?thesis by simp
qed

lemma for_range_resume:
  "completed body n = Some st \<Longrightarrow> n \<le> m \<Longrightarrow>
   for_range body [0..<m] initial_state = for_range body [n..<m] st"
proof (induction n arbitrary: st)
  case 0
  then show ?case by simp
next
  case (Suc n)
  from Suc.prems(1) obtain st0 where c: "completed body n = Some st0"
    and b: "body n st0 = (Continue, st)"
    by (rule completed_SucD)
  from Suc.prems(2) have lt: "n < m" by simp
  have "for_range body [0..<m] initial_state = for_range body [n..<m] st0"
    using Suc.IH [OF c] lt by simp
  also have "[n..<m] = n # [Suc n..<m]"
    using lt by (simp add: upt_conv_Cons)
  also have "for_range body (n # [Suc n..<m]) st0 = for_range body [Suc n..<m] st"
    using b by simp
  finally show ?case .
qed

lemma run_resumes:
  assumes "completed (engine_body lib user_query chat_history tools structured_llm prompt_template) n = Some st"
    and "n \<le> 10"
  shows "run_structured_react_engine lib user_query chat_history tools structured_llm prompt_template
          = for_range (engine_body lib user_query chat_history tools structured_llm prompt_template) [n..<10] st"
  unfolding run_structured_react_engine_def using assms by (rule for_range_resume)

lemma run_returns_at:
  assumes "completed (engine_body lib user_query chat_history tools structured_llm prompt_template) k = Some st"
    and "k < 10"
    and "engine_body lib user_query chat_history tools structured_llm prompt_template k st = (Return v, st')"
  shows "run_structured_react_engine lib user_query chat_history tools structured_llm prompt_template = (Inr v, st')"
proof -
  let ?body = "engine_body lib user_query chat_history tools structured_llm prompt_template"
  have "run_structured_react_engine lib user_query chat_history tools structured_llm prompt_template
          = for_range ?body [k..<10] st"
    using assms(1) by (rule run_resumes) (use assms(2) in simp)
  also have "[k..<10] = k # [Suc k..<10]"
    using assms(2) by (simp add: upt_conv_Cons)
  finally show ?thesis using assms(3) by simp
qed

lemma run_raises_at:
  assumes "completed (engine_body lib user_query chat_history tools structured_llm prompt_template) k = Some st"
    and "k < 10"
    and "engine_body lib user_query chat_history tools structured_llm prompt_template k st = (Raise e, st')"
  shows "run_structured_react_engine lib user_query chat_history tools structured_llm prompt_template = (Inl e, st')"
proof -
  let ?body = "engine_body lib user_query chat_history tools structured_llm prompt_template"
  have "run_structured_react_engine lib user_query chat_history tools structured_llm prompt_template
          = for_range ?body [k..<10] st"
    using assms(1) by (rule run_resumes) (use assms(2) in simp)
  also have "[k..<10] = k # [Suc k..<10]"
    using assms(2) by (simp add: upt_conv_Cons)
  finally show ?thesis using assms(3) by simp
qed

lemma run_except_at:
  assumes "completed (engine_body lib user_query chat_history tools structured_llm prompt_template) k = Some st"
    and "k < 10"
    and "engine_body lib user_query chat_history tools structured_llm prompt_template k st = (except_Exception e, st')"
  shows "run_structured_react_engine lib user_query chat_history tools structured_llm prompt_template
           = (if is_Exception e then Inr (PyStr (MSG_ENGINE_ERROR @ exn_str e)) else Inl e, st')"
proof (cases "is_Exception e")
  case True
  with assms(3) have "engine_body lib user_query chat_history tools structured_llm prompt_template k st = (Return (PyStr (MSG_ENGINE_ERROR @ exn_str e)), st')"
    by (simp add: except_Exception_def)
  with assms(1,2) have "run_structured_react_engine lib user_query chat_history tools structured_llm prompt_template = (Inr (PyStr (MSG_ENGINE_ERROR @ exn_str e)), st')"
    by (rule run_returns_at)
  with True show ?thesis by simp
next
  case False
  with assms(3) have "engine_body lib user_query chat_history tools structured_llm prompt_template k st = (Raise e, st')"
    by (simp add: except_Exception_def)
  with assms(1,2) have "run_structured_react_engine lib user_query chat_history tools structured_llm prompt_template = (Inl e, st')"
    by (rule run_raises_at)
  with False show ?thesis by simp
qed

lemma for_range_Inr_mem:
  "fst (for_range body is st) = Inr v \<Longrightarrow>
   v = PyStr MSG_MAX_ITERATIONS \<or> (\<exists>i s. i \<in> set is \<and> fst (body i s) = Return v)"
proof (induction "is" arbitrary: st)
  case Nil
  then show ?case by simp
next
  case (Cons i "is")
  obtain f st' where b: "body i st = (f, st')" by (cases "body i st")
  show ?case
  proof (cases f)
    case Continue
    then have "fst (for_range body is st') = Inr v" using Cons.prems b by simp
    from Cons.IH [OF this] show ?thesis by auto
  next
    case (Return v')
    then have "v' = v" using Cons.prems b by simp
    then have "fst (body i st) = Return v" using Return b by simp
    then show ?thesis by auto
  next
    case (Raise e')
    then show ?thesis using Cons.prems b by simp
  qed
qed


subsection \<open>Counting the calls\<close>


lemma completed_counts:
  "completed (engine_body lib user_query chat_history tools structured_llm prompt_template) n = Some st \<Longrightarrow>
   length (filter is_format (calls st)) = n \<and> length (filter is_create (calls st)) = n"
proof (induction n arbitrary: st)
  case 0
  then show ?case by (auto simp: initial_state_def)
next
  case (Suc n)
  from Suc.prems obtain st0 where
    c: "completed (engine_body lib user_query chat_history tools structured_llm prompt_template) n = Some st0"
    and b: "engine_body lib user_query chat_history tools structured_llm prompt_template n st0 = (Continue, st)"
    by (rule completed_SucD)
  from b obtain prompt a observation invoked json where
    o: "observe (build_tool_map tools) n a = (Inr observation, invoked)"
    and st: "st = \<lparr>intermediate_steps_str =
               intermediate_steps_str st0
                 @ NL @ ''Thought: '' @ thought a
                 @ NL @ ''Action: '' @ json
                 @ NL @ ''Observation: '' @ py_format (object_str lib) observation,
             calls = calls st0 @ [FormatCall (intermediate_steps_str st0), CreateCall prompt] @ invoked\<rparr>"
    by (rule engine_body_ContinueD)
  have "filter is_format invoked = [] \<and> filter is_create invoked = []"
    using observe_calls [of "build_tool_map tools" n a] o by simp
  with Suc.IH [OF c] st show ?case by simp
qed


subsection \<open>The call log only grows\<close>

lemma engine_body_extends:
  "\<exists>cs. calls (snd (engine_body lib user_query chat_history tools structured_llm prompt_template i st))
          = calls st @ FormatCall (intermediate_steps_str st) # cs"
proof (cases rule: engine_body_cases [where prompt_template = prompt_template and user_query = user_query
    and lib = lib and chat_history = chat_history and st = st and structured_llm = structured_llm
    and i = i and tools = tools])
  case (prompt_raises e)
  then show ?thesis by (simp add: engine_body_prompt_raises)
next
  case (request_raises prompt e)
  then show ?thesis by (simp add: engine_body_request_raises)
next
  case (final_answer prompt a)
  then show ?thesis by (simp add: engine_body_final_answer)
next
  case (ask_user prompt a)
  then show ?thesis by (simp add: engine_body_ask_user)
next
  case (tool_escapes prompt a e invoked)
  then have "engine_body lib user_query chat_history tools structured_llm prompt_template i st =
           (except_Exception e,
            st\<lparr>calls := calls st @ [FormatCall (intermediate_steps_str st), CreateCall prompt] @ invoked\<rparr>)"
    by (rule engine_body_tool_escapes)
  then show ?thesis by simp
next
  case (dump_raises prompt a observation invoked e)
  then have "engine_body lib user_query chat_history tools structured_llm prompt_template i st =
           (except_Exception e,
            st\<lparr>calls := calls st @ [FormatCall (intermediate_steps_str st), CreateCall prompt] @ invoked\<rparr>)"
    by (rule engine_body_dump_raises)
  then show ?thesis by simp
next
  case (recorded prompt a observation invoked json)
  then have "engine_body lib user_query chat_history tools structured_llm prompt_template i st =
           (Continue,
            \<lparr>intermediate_steps_str =
               intermediate_steps_str st
                 @ NL @ ''Thought: '' @ thought a
                 @ NL @ ''Action: '' @ json
                 @ NL @ ''Observation: '' @ py_format (object_str lib) observation,
             calls = calls st @ [FormatCall (intermediate_steps_str st), CreateCall prompt] @ invoked\<rparr>)"
    by (rule engine_body_recorded)
  then show ?thesis by simp
qed

lemma for_range_extends:
  assumes "\<And>i st. \<exists>cs. calls (snd (body i st)) = calls st @ cs"
  shows "\<exists>cs. calls (snd (for_range body is st)) = calls st @ cs"
proof (induction "is" arbitrary: st)
  case Nil
  show ?case by simp
next
  case (Cons i "is")
  obtain f st' where b: "body i st = (f, st')" by (cases "body i st")
  obtain cs where cs: "calls st' = calls st @ cs"
    using assms [of i st] b by auto
  show ?case
  proof (cases f)
    case Continue
    obtain cs' where "calls (snd (for_range body is st')) = calls st' @ cs'"
      using Cons.IH by blast
    then show ?thesis using Continue b cs by simp
  next
    case (Return v)
    then show ?thesis using b cs by simp
  next
    case (Raise e)
    then show ?thesis using b cs by simp
  qed
qed

lemma for_range_Cons_extends:
  assumes "\<And>i st. \<exists>cs. calls (snd (body i st)) = calls st @ cs"
  shows "\<exists>cs. calls (snd (for_range body (i # is) st)) = calls (snd (body i st)) @ cs"
proof -
  obtain f st' where b: "body i st = (f, st')" by (cases "body i st")
  show ?thesis
  proof (cases f)
    case Continue
    then show ?thesis using b for_range_extends [of body "is" st', OF assms] by simp
  next
    case (Return v)
    then show ?thesis using b by simp
  next
    case (Raise e)
    then show ?thesis using b by simp
  qed
qed

lemma next_pass_begins:
  assumes "completed (engine_body lib user_query chat_history tools structured_llm prompt_template) n = Some st"
    and "n < 10"
  shows "\<exists>cs. calls (snd (run_structured_react_engine lib user_query chat_history tools structured_llm prompt_template))
            = calls st @ FormatCall (intermediate_steps_str st) # cs"
proof -
  let ?body = "engine_body lib user_query chat_history tools structured_llm prompt_template"
  have ext: "\<exists>cs. calls (snd (?body i s)) = calls s @ cs" for i s
    using engine_body_extends [of lib user_query chat_history tools structured_llm prompt_template i s]
    by blast
  have "run_structured_react_engine lib user_query chat_history tools structured_llm prompt_template
          = for_range ?body [n..<10] st"
    unfolding run_structured_react_engine_def using assms(1) by (rule for_range_resume) (use assms(2) in simp)
  also have "[n..<10] = n # [Suc n..<10]"
    using assms(2) by (simp add: upt_conv_Cons)
  finally have run: "run_structured_react_engine lib user_query chat_history tools structured_llm prompt_template
          = for_range ?body (n # [Suc n..<10]) st" .
  obtain cs where 1: "calls (snd (for_range ?body (n # [Suc n..<10]) st)) = calls (snd (?body n st)) @ cs"
    using for_range_Cons_extends [of ?body n "[Suc n..<10]" st] ext by blast
  obtain cs' where 2: "calls (snd (?body n st)) = calls st @ FormatCall (intermediate_steps_str st) # cs'"
    using engine_body_extends [of lib user_query chat_history tools structured_llm prompt_template n st]
    by blast
  show ?thesis unfolding run 1 2 by simp
qed

subsection \<open>Runs with the mock collaborators\<close>

lemma demo_tool_map:
  "build_tool_map demo_tools ''calculator_tool'' = Some \<lparr>name = ''calculator_tool'', invoke = returning ''4''\<rparr>"
  "build_tool_map demo_tools ''wolfram_alpha_tool'' = Some \<lparr>name = ''wolfram_alpha_tool'', invoke = raising ''HTTP Error 503''\<rparr>"
  by (simp_all add: build_tool_map_def demo_tools_def get_tools_def)

lemma demo_history: "render_history demo_lib [] = []"
  by (simp add: render_history_def)

lemma demo_prompt_initial:
  "demo_template ''2+2?'' (render_history demo_lib []) (intermediate_steps_str (initial_state :: nat run_state))
     = Inr ''2+2?''"
  by (simp add: demo_template_def demo_history initial_state_def)

lemma demo_dump: "model_dump_json demo_lib a = Inr (''{'' @ tool a @ ''}'')"
  by (simp add: demo_lib_def)

lemma observe_calculate:
  "observe (build_tool_map demo_tools) i calculate
     = (Inr (PyStr ''4''), [InvokeCall ''calculator_tool'' (PyStr ''2+2'')])"
  by (simp add: observe_def calculate_def demo_tool_map returning_def)

lemma completed_calculate:
  "completed (engine_body demo_lib ''2+2?'' [] demo_tools (scripted (calculate # ds)) demo_template) (Suc 0)
     = Some state_after_calculate"
proof -
  have "completed (engine_body demo_lib ''2+2?'' [] demo_tools (scripted (calculate # ds)) demo_template) (Suc 0)
     = Some \<lparr>intermediate_steps_str =
               intermediate_steps_str (initial_state :: nat run_state)
                 @ NL @ ''Thought: '' @ thought calculate
                 @ NL @ ''Action: '' @ (''{'' @ tool calculate @ ''}'')
                 @ NL @ ''Observation: '' @ py_format (object_str demo_lib) (PyStr ''4''),
             calls = calls (initial_state :: nat run_state)
                       @ [FormatCall (intermediate_steps_str (initial_state :: nat run_state)), CreateCall ''2+2?'']
                       @ [InvokeCall ''calculator_tool'' (PyStr ''2+2'')]\<rparr>"
  proof (rule completed_Suc)
    show "completed (engine_body demo_lib ''2+2?'' [] demo_tools (scripted (calculate # ds)) demo_template) 0
            = Some initial_state"
      by simp
    show "demo_template ''2+2?'' (render_history demo_lib []) (intermediate_steps_str (initial_state :: nat run_state))
            = Inr ''2+2?''"
      by (rule demo_prompt_initial)
    show "scripted (calculate # ds) 0 ''2+2?'' = Inr calculate"
      by simp
    show "tool calculate \<noteq> ''Final Answer''" and "tool calculate \<noteq> ''ask_user_tool''"
      by (simp_all add: calculate_def)
    show "observe (build_tool_map demo_tools) 0 calculate
            = (Inr (PyStr ''4''), [InvokeCall ''calculator_tool'' (PyStr ''2+2'')])"
      by (rule observe_calculate)
    show "model_dump_json demo_lib calculate = Inr (''{'' @ tool calculate @ ''}'')"
      by (rule demo_dump)
  qed
  then show ?thesis
    by (simp add: initial_state_def state_after_calculate_def trace_after_calculate_def calculate_def)
qed


lemma run_broken_template:
  "run_structured_react_engine demo_lib ''2+2?'' [] demo_tools llm broken_template
     = (Inl (PyException ''KeyError''), \<lparr>intermediate_steps_str = [], calls = [FormatCall []]\<rparr>)"
proof (rule run_raises_at)
  show "completed (engine_body demo_lib ''2+2?'' [] demo_tools llm broken_template) 0
          = Some initial_state"
    by simp
  show "(0::nat) < 10" by simp
  have "engine_body demo_lib ''2+2?'' [] demo_tools llm broken_template 0 initial_state
          = (Raise (PyException ''KeyError''),
             initial_state\<lparr>calls := calls (initial_state :: nat run_state)
                @ [FormatCall (intermediate_steps_str (initial_state :: nat run_state))]\<rparr>)"
    by (rule engine_body_prompt_raises) (simp add: broken_template_def)
  then show "engine_body demo_lib ''2+2?'' [] demo_tools llm broken_template 0 initial_state
          = (Raise (PyException ''KeyError''), \<lparr>intermediate_steps_str = [], calls = [FormatCall []]\<rparr>)"
    by (simp add: initial_state_def)
qed

lemma run_final_number:
  "run_structured_react_engine demo_lib ''2+2?'' [] demo_tools (always final_number) demo_template
     = (Inr (PyObj 4), \<lparr>intermediate_steps_str = [], calls = [FormatCall [], CreateCall ''2+2?'']\<rparr>)"
proof (rule run_returns_at)
  show "completed (engine_body demo_lib ''2+2?'' [] demo_tools (always final_number) demo_template) 0
          = Some initial_state"
    by simp
  show "(0::nat) < 10" by simp
  have "engine_body demo_lib ''2+2?'' [] demo_tools (always final_number) demo_template 0 initial_state
          = (Return (tool_input final_number),
             initial_state\<lparr>calls := calls (initial_state :: nat run_state)
                @ [FormatCall (intermediate_steps_str (initial_state :: nat run_state)), CreateCall ''2+2?'']\<rparr>)"
    by (rule engine_body_final_answer)
       (simp_all add: demo_prompt_initial always_def final_number_def)
  then show "engine_body demo_lib ''2+2?'' [] demo_tools (always final_number) demo_template 0 initial_state
          = (Return (PyObj 4), \<lparr>intermediate_steps_str = [], calls = [FormatCall [], CreateCall ''2+2?'']\<rparr>)"
    by (simp add: initial_state_def final_number_def)
qed

lemma lookup_tool_map:
  "build_tool_map [first_lookup, second_lookup] ''lookup'' = Some second_lookup"
  by (simp add: build_tool_map_def first_lookup_def second_lookup_def)

lemma completed_lookup:
  "completed (engine_body demo_lib ''2+2?'' [] [first_lookup, second_lookup] (scripted (use_lookup # ds)) demo_template) (Suc 0)
     = Some \<lparr>intermediate_steps_str =
               NL @ ''Thought: look it up'' @ NL @ ''Action: {lookup}'' @ NL @ ''Observation: second'',
             calls = [FormatCall [], CreateCall ''2+2?'', InvokeCall ''lookup'' (PyStr ''isabelle'')]\<rparr>"
proof -
  have "completed (engine_body demo_lib ''2+2?'' [] [first_lookup, second_lookup] (scripted (use_lookup # ds)) demo_template) (Suc 0)
     = Some \<lparr>intermediate_steps_str =
               intermediate_steps_str (initial_state :: nat run_state)
                 @ NL @ ''Thought: '' @ thought use_lookup
                 @ NL @ ''Action: '' @ (''{'' @ tool use_lookup @ ''}'')
                 @ NL @ ''Observation: '' @ py_format (object_str demo_lib) (PyStr ''second''),
             calls = calls (initial_state :: nat run_state)
                       @ [FormatCall (intermediate_steps_str (initial_state :: nat run_state)), CreateCall ''2+2?'']
                       @ [InvokeCall ''lookup'' (PyStr ''isabelle'')]\<rparr>"
  proof (rule completed_Suc)
    show "completed (engine_body demo_lib ''2+2?'' [] [first_lookup, second_lookup] (scripted (use_lookup # ds)) demo_template) 0
            = Some initial_state"
      by simp
    show "demo_template ''2+2?'' (render_history demo_lib []) (intermediate_steps_str (initial_state :: nat run_state))
            = Inr ''2+2?''"
      by (rule demo_prompt_initial)
    show "scripted (use_lookup # ds) 0 ''2+2?'' = Inr use_lookup"
      by simp
    show "tool use_lookup \<noteq> ''Final Answer''" and "tool use_lookup \<noteq> ''ask_user_tool''"
      by (simp_all add: use_lookup_def)
    have "build_tool_map [first_lookup, second_lookup] (tool use_lookup) = Some second_lookup"
      by (simp add: use_lookup_def lookup_tool_map)
    then have "observe (build_tool_map [first_lookup, second_lookup]) 0 use_lookup
          = (case invoke second_lookup 0 (tool_input use_lookup) of
               Inr observation \<Rightarrow> Inr observation
             | Inl e \<Rightarrow> if is_Exception e then Inr (PyStr (MSG_TOOL_ERROR @ exn_str e)) else Inl e,
             [InvokeCall (tool use_lookup) (tool_input use_lookup)])"
      by (rule observe_found)
    then show "observe (build_tool_map [first_lookup, second_lookup]) 0 use_lookup
            = (Inr (PyStr ''second''), [InvokeCall ''lookup'' (PyStr ''isabelle'')])"
      by (simp add: second_lookup_def returning_def use_lookup_def)
    show "model_dump_json demo_lib use_lookup = Inr (''{'' @ tool use_lookup @ ''}'')"
      by (rule demo_dump)
  qed
  then show ?thesis
    by (simp add: initial_state_def use_lookup_def)
qed


section \<open>Termination and the iteration budget\<close>




section \<open>The final answer ends the run\<close>

text \<open>
  Claim C2. When the passes \<open>0, ..., k - 1\<close> have completed and the decision of pass
  \<open>k < 10\<close> has the tool \<^verbatim>\<open>"Final Answer"\<close>, the run returns the \<^verbatim>\<open>tool_input\<close> of
  that decision at once: the only calls after the state of pass \<open>k\<close> are the rendering
  of the prompt and the decision request of pass \<open>k\<close>, so that \<open>k + 1\<close> passes have
  begun and the completion capability has been called exactly \<open>k + 1\<close> times.
\<close>

theorem final_answer_short_circuit:
  assumes "k < 10"
    and "completed (engine_body lib user_query chat_history tools structured_llm prompt_template) k = Some st"
    and "prompt_template user_query (render_history lib chat_history) (intermediate_steps_str st) = Inr prompt"
    and "structured_llm k prompt = Inr a"
    and "tool a = ''Final Answer''"
  shows "run_structured_react_engine lib user_query chat_history tools structured_llm prompt_template
           = (Inr (tool_input a),
              st\<lparr>calls := calls st @ [FormatCall (intermediate_steps_str st), CreateCall prompt]\<rparr>)
         \<and> length (filter is_create (calls (snd (run_structured_react_engine lib user_query chat_history tools structured_llm prompt_template)))) = k + 1
         \<and> length (filter is_format (calls (snd (run_structured_react_engine lib user_query chat_history tools structured_llm prompt_template)))) = k + 1"
proof -
  let ?body = "engine_body lib user_query chat_history tools structured_llm prompt_template"
  let ?run = "run_structured_react_engine lib user_query chat_history tools structured_llm prompt_template"
  have "?run = for_range ?body [k..<10] st"
    unfolding run_structured_react_engine_def using assms(2) by (rule for_range_resume) (use assms(1) in simp)
  also have "[k..<10] = k # [Suc k..<10]"
    using assms(1) by (simp add: upt_conv_Cons)
  finally have run: "?run = for_range ?body (k # [Suc k..<10]) st" .
  from assms(3-5)
  have "?body k st = (Return (tool_input a),
              st\<lparr>calls := calls st @ [FormatCall (intermediate_steps_str st), CreateCall prompt]\<rparr>)"
    by (rule engine_body_final_answer)
  with run have "?run = (Inr (tool_input a),
              st\<lparr>calls := calls st @ [FormatCall (intermediate_steps_str st), CreateCall prompt]\<rparr>)"
    by simp
  then show ?thesis using completed_counts [OF assms(2)] by simp
qed

theorem final_answer_short_circuit_witness:
  "Suc 0 < 10
   \<and> completed (engine_body demo_lib ''2+2?'' [] demo_tools (scripted [calculate, final_answer]) demo_template) (Suc 0)
       = Some state_after_calculate
   \<and> (\<exists>prompt. demo_template ''2+2?'' (render_history demo_lib []) (intermediate_steps_str state_after_calculate) = Inr prompt
        \<and> scripted [calculate, final_answer] (Suc 0) prompt = Inr final_answer)
   \<and> tool final_answer = ''Final Answer''
   \<and> fst (run_structured_react_engine demo_lib ''2+2?'' [] demo_tools (scripted [calculate, final_answer]) demo_template)
       = Inr (PyStr ''2+2 = 4'')
   \<and> length (filter is_create (calls (snd (run_structured_react_engine demo_lib ''2+2?'' [] demo_tools
        (scripted [calculate, final_answer]) demo_template)))) = 2"
proof -
  have k: "Suc 0 < 10" by simp
  have t: "tool final_answer = ''Final Answer''"
    by (simp add: final_answer_def)
  have p: "demo_template ''2+2?'' (render_history demo_lib []) (intermediate_steps_str state_after_calculate)
             = Inr (render_history demo_lib [] @ intermediate_steps_str state_after_calculate @ ''2+2?'')"
    by (simp add: demo_template_def)
  have l: "scripted [calculate, final_answer] (Suc 0)
             (render_history demo_lib [] @ intermediate_steps_str state_after_calculate @ ''2+2?'') = Inr final_answer"
    by simp
  have e: "\<exists>prompt. demo_template ''2+2?'' (render_history demo_lib []) (intermediate_steps_str state_after_calculate) = Inr prompt
        \<and> scripted [calculate, final_answer] (Suc 0) prompt = Inr final_answer"
    using p l by blast
  have i: "tool_input final_answer = PyStr ''2+2 = 4''"
    by (simp add: final_answer_def)
  note r = final_answer_short_circuit [OF k completed_calculate p l t]
  have "fst (run_structured_react_engine demo_lib ''2+2?'' [] demo_tools (scripted [calculate, final_answer]) demo_template)
       = Inr (PyStr ''2+2 = 4'')"
    using r [THEN conjunct1] by (simp add: i)
  moreover
  have "length (filter is_create (calls (snd (run_structured_react_engine demo_lib ''2+2?'' [] demo_tools
        (scripted [calculate, final_answer]) demo_template)))) = 2"
    using r [THEN conjunct2, THEN conjunct1] by simp
  ultimately show ?thesis using k completed_calculate e t by blast
qed

section \<open>Which exceptions leave the run\<close>

text \<open>
  Claim C3 says that no exception raised in a pass of the loop body leaves the run, the
  rendering of the prompt included. The rendering (line 283) stands before the
  \<^verbatim>\<open>try\<close> of line 288: with a template whose rendering raises, the exception leaves
  the run in the first pass.
\<close>

theorem prompt_rendering_exception_escapes:
  "fst (run_structured_react_engine demo_lib ''2+2?'' [] demo_tools (always calculate) broken_template)
     = Inl (PyException ''KeyError'')"
  by (simp add: run_broken_template)

text \<open>
  Claim C3, amended. In pass \<open>k < 10\<close>, reached after the passes \<open>0, ..., k - 1\<close> have
  completed:
  \<^item> an exception raised while rendering the prompt, which is before the \<^verbatim>\<open>try\<close>, leaves
    the run;
  \<^item> an exception of the decision request (the request itself or the validation of the
    decision) that is an \<^verbatim>\<open>Exception\<close> is caught by the handler of line 334, and the run
    returns the engine-error text made of the fixed prefix and \<^verbatim>\<open>str(e)\<close>, without
    another request; one that is not an \<^verbatim>\<open>Exception\<close> leaves the run;
  \<^item> an exception of a tool invocation that is not an \<^verbatim>\<open>Exception\<close> passes both handlers
    and leaves the run (an \<^verbatim>\<open>Exception\<close> becomes the observation, see claim C5);
  \<^item> an exception of \<^verbatim>\<open>model_dump_json\<close>, raised while the step is recorded, is
    treated like one of the decision request.
\<close>

theorem exceptions_caught_and_escaping:
  assumes "k < 10"
    and "completed (engine_body lib user_query chat_history tools structured_llm prompt_template) k = Some st"
  shows "(\<forall>e. prompt_template user_query (render_history lib chat_history) (intermediate_steps_str st) = Inl e \<longrightarrow>
            run_structured_react_engine lib user_query chat_history tools structured_llm prompt_template = (Inl e, st\<lparr>calls := calls st @ [FormatCall (intermediate_steps_str st)]\<rparr>))
   \<and> (\<forall>prompt e.
         prompt_template user_query (render_history lib chat_history) (intermediate_steps_str st) = Inr prompt \<and> structured_llm k prompt = Inl e \<longrightarrow>
         run_structured_react_engine lib user_query chat_history tools structured_llm prompt_template
           = (if is_Exception e then Inr (PyStr (MSG_ENGINE_ERROR @ exn_str e)) else Inl e,
              st\<lparr>calls := calls st @ [FormatCall (intermediate_steps_str st), CreateCall prompt]\<rparr>))
   \<and> (\<forall>prompt a t e.
         prompt_template user_query (render_history lib chat_history) (intermediate_steps_str st) = Inr prompt \<and> structured_llm k prompt = Inr a
         \<and> tool a \<noteq> ''Final Answer'' \<and> tool a \<noteq> ''ask_user_tool''
         \<and> build_tool_map tools (tool a) = Some t \<and> invoke t k (tool_input a) = Inl e
         \<and> \<not> is_Exception e \<longrightarrow>
         run_structured_react_engine lib user_query chat_history tools structured_llm prompt_template
           = (Inl e,
              st\<lparr>calls := calls st @ [FormatCall (intermediate_steps_str st), CreateCall prompt,
                                      InvokeCall (tool a) (tool_input a)]\<rparr>))
   \<and> (\<forall>prompt a observation invoked e.
         prompt_template user_query (render_history lib chat_history) (intermediate_steps_str st) = Inr prompt \<and> structured_llm k prompt = Inr a
         \<and> tool a \<noteq> ''Final Answer'' \<and> tool a \<noteq> ''ask_user_tool''
         \<and> observe (build_tool_map tools) k a = (Inr observation, invoked)
         \<and> model_dump_json lib a = Inl e \<longrightarrow>
         run_structured_react_engine lib user_query chat_history tools structured_llm prompt_template
           = (if is_Exception e then Inr (PyStr (MSG_ENGINE_ERROR @ exn_str e)) else Inl e,
              st\<lparr>calls := calls st @ [FormatCall (intermediate_steps_str st), CreateCall prompt] @ invoked\<rparr>))"
proof -
  let ?body = "engine_body lib user_query chat_history tools structured_llm prompt_template"
  let ?run = "run_structured_react_engine lib user_query chat_history tools structured_llm prompt_template"
  have rendering: "?run = (Inl e, st\<lparr>calls := calls st @ [FormatCall (intermediate_steps_str st)]\<rparr>)"
    if "prompt_template user_query (render_history lib chat_history) (intermediate_steps_str st) = Inl e" for e
  proof -
    from that
    have "?body k st = (Raise e, st\<lparr>calls := calls st @ [FormatCall (intermediate_steps_str st)]\<rparr>)"
      by (rule engine_body_prompt_raises)
    with assms(2,1) show ?thesis by (rule run_raises_at)
  qed
  have request: "?run
           = (if is_Exception e then Inr (PyStr (MSG_ENGINE_ERROR @ exn_str e)) else Inl e,
              st\<lparr>calls := calls st @ [FormatCall (intermediate_steps_str st), CreateCall prompt]\<rparr>)"
    if "prompt_template user_query (render_history lib chat_history) (intermediate_steps_str st) = Inr prompt" and "structured_llm k prompt = Inl e" for prompt e
  proof -
    from that
    have "?body k st = (except_Exception e,
              st\<lparr>calls := calls st @ [FormatCall (intermediate_steps_str st), CreateCall prompt]\<rparr>)"
      by (rule engine_body_request_raises)
    with assms(2,1) show ?thesis by (rule run_except_at)
  qed
  have invocation: "?run
           = (Inl e,
              st\<lparr>calls := calls st @ [FormatCall (intermediate_steps_str st), CreateCall prompt,
                                      InvokeCall (tool a) (tool_input a)]\<rparr>)"
    if "prompt_template user_query (render_history lib chat_history) (intermediate_steps_str st) = Inr prompt" and "structured_llm k prompt = Inr a"
      and "tool a \<noteq> ''Final Answer''" and "tool a \<noteq> ''ask_user_tool''"
      and "build_tool_map tools (tool a) = Some t" and "invoke t k (tool_input a) = Inl e"
      and "\<not> is_Exception e"
    for prompt a t e
  proof -
    have "observe (build_tool_map tools) k a = (Inl e, [InvokeCall (tool a) (tool_input a)])"
      using that(5-7) by (simp add: observe_found)
    with that(1-4)
    have "?body k st = (except_Exception e,
              st\<lparr>calls := calls st @ [FormatCall (intermediate_steps_str st), CreateCall prompt]
                        @ [InvokeCall (tool a) (tool_input a)]\<rparr>)"
      by (rule engine_body_tool_escapes)
    with assms(2,1)
    have "?run = (if is_Exception e then Inr (PyStr (MSG_ENGINE_ERROR @ exn_str e)) else Inl e,
              st\<lparr>calls := calls st @ [FormatCall (intermediate_steps_str st), CreateCall prompt]
                        @ [InvokeCall (tool a) (tool_input a)]\<rparr>)"
      by (rule run_except_at)
    with that(7) show ?thesis by simp
  qed
  have recording: "?run
           = (if is_Exception e then Inr (PyStr (MSG_ENGINE_ERROR @ exn_str e)) else Inl e,
              st\<lparr>calls := calls st @ [FormatCall (intermediate_steps_str st), CreateCall prompt] @ invoked\<rparr>)"
    if "prompt_template user_query (render_history lib chat_history) (intermediate_steps_str st) = Inr prompt" and "structured_llm k prompt = Inr a"
      and "tool a \<noteq> ''Final Answer''" and "tool a \<noteq> ''ask_user_tool''"
      and "observe (build_tool_map tools) k a = (Inr observation, invoked)"
      and "model_dump_json lib a = Inl e"
    for prompt a observation invoked e
  proof -
    from that
    have "?body k st = (except_Exception e,
              st\<lparr>calls := calls st @ [FormatCall (intermediate_steps_str st), CreateCall prompt] @ invoked\<rparr>)"
      by (rule engine_body_dump_raises)
    with assms(2,1) show ?thesis by (rule run_except_at)
  qed
  from rendering request invocation recording show ?thesis by blast
qed

theorem exceptions_caught_and_escaping_witness:
  "broken_template ''2+2?'' (render_history demo_lib []) (intermediate_steps_str (initial_state :: nat run_state))
     = Inl (PyException ''KeyError'')
   \<and> fst (run_structured_react_engine demo_lib ''2+2?'' [] demo_tools (scripted [final_answer]) broken_template)
       = Inl (PyException ''KeyError'')
   \<and> scripted [calculate] (Suc 0) (intermediate_steps_str state_after_calculate @ ''2+2?'')
       = Inl (PyException ''StopIteration'')
   \<and> fst (run_structured_react_engine demo_lib ''2+2?'' [] demo_tools (scripted [calculate]) demo_template)
       = Inr (PyStr (MSG_ENGINE_ERROR @ ''StopIteration''))
   \<and> (interrupted 0 ''2+2?'' :: pyexn + nat Action) = Inl (PyBaseException ''KeyboardInterrupt'')
   \<and> fst (run_structured_react_engine demo_lib ''2+2?'' [] demo_tools interrupted demo_template)
       = Inl (PyBaseException ''KeyboardInterrupt'')
   \<and> invoke \<lparr>name = ''calculator_tool'', invoke = exiting ''SystemExit''\<rparr> 0 (tool_input calculate)
       = Inl (PyBaseException ''SystemExit'')
   \<and> fst (run_structured_react_engine demo_lib ''2+2?'' [] exit_tools (scripted [calculate]) demo_template)
       = Inl (PyBaseException ''SystemExit'')
   \<and> model_dump_json strict_lib calculate_object = Inl (PyException ''PydanticSerializationError'')
   \<and> fst (run_structured_react_engine strict_lib ''2+2?'' [] demo_tools (scripted [calculate_object]) demo_template)
       = Inr (PyStr (MSG_ENGINE_ERROR @ ''PydanticSerializationError''))"
proof -
  have k0: "(0::nat) < 10" and k1: "Suc 0 < 10" by simp_all
  \<comment> \<open>the rendering of the prompt raises\<close>
  have c1: "completed (engine_body demo_lib ''2+2?'' [] demo_tools (scripted [final_answer]) broken_template) 0
              = Some initial_state"
    by simp
  have p1: "broken_template ''2+2?'' (render_history demo_lib []) (intermediate_steps_str (initial_state :: nat run_state))
              = Inl (PyException ''KeyError'')"
    by (simp add: broken_template_def)
  have r1: "fst (run_structured_react_engine demo_lib ''2+2?'' [] demo_tools (scripted [final_answer]) broken_template)
              = Inl (PyException ''KeyError'')"
    using exceptions_caught_and_escaping [OF k0 c1, THEN conjunct1] p1 by simp
  \<comment> \<open>the decision request raises an \<^verbatim>\<open>Exception\<close>\<close>
  have c2: "completed (engine_body demo_lib ''2+2?'' [] demo_tools (scripted [calculate]) demo_template) (Suc 0)
              = Some state_after_calculate"
    by (rule completed_calculate)
  have p2: "demo_template ''2+2?'' (render_history demo_lib []) (intermediate_steps_str state_after_calculate)
              = Inr (intermediate_steps_str state_after_calculate @ ''2+2?'')"
    by (simp add: demo_template_def demo_history)
  have l2: "scripted [calculate] (Suc 0) (intermediate_steps_str state_after_calculate @ ''2+2?'')
              = Inl (PyException ''StopIteration'')"
    by simp
  have r2: "fst (run_structured_react_engine demo_lib ''2+2?'' [] demo_tools (scripted [calculate]) demo_template)
              = Inr (PyStr (MSG_ENGINE_ERROR @ ''StopIteration''))"
    using exceptions_caught_and_escaping [OF k1 c2, THEN conjunct2, THEN conjunct1] p2 l2 by simp
  \<comment> \<open>the decision request raises \<^verbatim>\<open>KeyboardInterrupt\<close>\<close>
  have c3: "completed (engine_body demo_lib ''2+2?'' [] demo_tools interrupted demo_template) 0
              = Some initial_state"
    by simp
  have p3: "demo_template ''2+2?'' (render_history demo_lib []) (intermediate_steps_str (initial_state :: nat run_state))
              = Inr ''2+2?''"
    by (rule demo_prompt_initial)
  have l3: "(interrupted 0 ''2+2?'' :: pyexn + nat Action) = Inl (PyBaseException ''KeyboardInterrupt'')"
    by (simp add: interrupted_def)
  have r3: "fst (run_structured_react_engine demo_lib ''2+2?'' [] demo_tools interrupted demo_template)
              = Inl (PyBaseException ''KeyboardInterrupt'')"
    using exceptions_caught_and_escaping [OF k0 c3, THEN conjunct2, THEN conjunct1] p3 l3 by simp
  \<comment> \<open>the tool raises \<^verbatim>\<open>SystemExit\<close>\<close>
  have c4: "completed (engine_body demo_lib ''2+2?'' [] exit_tools (scripted [calculate]) demo_template) 0
              = Some initial_state"
    by simp
  have l4: "scripted [calculate] 0 ''2+2?'' = Inr calculate"
    by simp
  have t4: "tool calculate \<noteq> ''Final Answer''" "tool calculate \<noteq> ''ask_user_tool''"
    by (simp_all add: calculate_def)
  have m4: "build_tool_map exit_tools (tool calculate)
              = Some \<lparr>name = ''calculator_tool'', invoke = exiting ''SystemExit''\<rparr>"
    by (simp add: build_tool_map_def exit_tools_def get_tools_def calculate_def)
  have i4: "invoke \<lparr>name = ''calculator_tool'', invoke = exiting ''SystemExit''\<rparr> 0 (tool_input calculate)
              = Inl (PyBaseException ''SystemExit'')"
    by (simp add: exiting_def)
  have n4: "\<not> is_Exception (PyBaseException ''SystemExit'')"
    by simp
  have r4: "fst (run_structured_react_engine demo_lib ''2+2?'' [] exit_tools (scripted [calculate]) demo_template)
              = Inl (PyBaseException ''SystemExit'')"
    using exceptions_caught_and_escaping [OF k0 c4, THEN conjunct2, THEN conjunct2, THEN conjunct1]
      p3 l4 t4 m4 i4 n4
    by fastforce
  \<comment> \<open>\<^verbatim>\<open>model_dump_json\<close> raises\<close>
  have c5: "completed (engine_body strict_lib ''2+2?'' [] demo_tools (scripted [calculate_object]) demo_template) 0
              = Some initial_state"
    by simp
  have p5: "demo_template ''2+2?'' (render_history strict_lib []) (intermediate_steps_str (initial_state :: nat run_state))
              = Inr ''2+2?''"
    by (simp add: demo_template_def render_history_def initial_state_def)
  have l5: "scripted [calculate_object] 0 ''2+2?'' = Inr calculate_object"
    by simp
  have t5: "tool calculate_object \<noteq> ''Final Answer''" "tool calculate_object \<noteq> ''ask_user_tool''"
    by (simp_all add: calculate_object_def)
  have o5: "observe (build_tool_map demo_tools) 0 calculate_object
              = (Inr (PyStr ''4''), [InvokeCall ''calculator_tool'' (PyObj 4)])"
    by (simp add: observe_def calculate_object_def demo_tool_map returning_def)
  have d5: "model_dump_json strict_lib calculate_object = Inl (PyException ''PydanticSerializationError'')"
    by (simp add: strict_lib_def calculate_object_def)
  have r5: "fst (run_structured_react_engine strict_lib ''2+2?'' [] demo_tools (scripted [calculate_object]) demo_template)
              = Inr (PyStr (MSG_ENGINE_ERROR @ ''PydanticSerializationError''))"
    using exceptions_caught_and_escaping [OF k0 c5, THEN conjunct2, THEN conjunct2, THEN conjunct2]
      p5 l5 t5 o5 d5
    by fastforce
  from p1 r1 l2 r2 l3 r3 i4 r4 d5 r5 show ?thesis by blast
qed

section \<open>An unknown tool name is recoverable\<close>

text \<open>
  Claim C4 says that after a decision with an unknown tool name the loop always goes on
  to the next pass. The entry of the pass is made inside the \<^verbatim>\<open>try\<close> of line 288 (lines
  330-332) and calls \<^verbatim>\<open>model_dump_json\<close>: with an empty tool list and a decision that the
  schema admits but whose \<^verbatim>\<open>tool_input\<close> cannot be serialised, the handler of line 334
  ends the run in that pass with the engine-error text; nothing is appended to the
  trace and no second prompt is rendered.
\<close>

theorem unknown_tool_unrecorded_ends_run:
  "Action_validates calculate_object
   \<and> tool calculate_object \<notin> name ` set ([] :: nat BaseTool list)
   \<and> run_structured_react_engine strict_lib ''2+2?'' [] [] (scripted [calculate_object, final_answer]) demo_template = (Inr (PyStr (MSG_ENGINE_ERROR @ ''PydanticSerializationError'')),
           \<lparr>intermediate_steps_str = [], calls = [FormatCall [], CreateCall ''2+2?'']\<rparr>)"
proof -
  have "run_structured_react_engine strict_lib ''2+2?'' [] [] (scripted [calculate_object, final_answer]) demo_template = (if is_Exception (PyException ''PydanticSerializationError'')
              then Inr (PyStr (MSG_ENGINE_ERROR @ exn_str (PyException ''PydanticSerializationError'')))
              else Inl (PyException ''PydanticSerializationError''),
              initial_state\<lparr>calls := calls (initial_state :: nat run_state)
                 @ [FormatCall (intermediate_steps_str (initial_state :: nat run_state)), CreateCall ''2+2?''] @ []\<rparr>)"
  proof (rule run_except_at)
    show "completed (engine_body strict_lib ''2+2?'' [] [] (scripted [calculate_object, final_answer]) demo_template) 0 = Some initial_state"
      by simp
    show "(0::nat) < 10" by simp
    show "(engine_body strict_lib ''2+2?'' [] [] (scripted [calculate_object, final_answer]) demo_template) 0 initial_state
            = (except_Exception (PyException ''PydanticSerializationError''),
               initial_state\<lparr>calls := calls (initial_state :: nat run_state)
                 @ [FormatCall (intermediate_steps_str (initial_state :: nat run_state)), CreateCall ''2+2?''] @ []\<rparr>)"
    proof (rule engine_body_dump_raises)
      show "demo_template ''2+2?'' (render_history strict_lib []) (intermediate_steps_str (initial_state :: nat run_state))
              = Inr ''2+2?''"
        by (simp add: demo_template_def render_history_def initial_state_def)
      show "scripted [calculate_object, final_answer] 0 ''2+2?'' = Inr calculate_object"
        by simp
      show "tool calculate_object \<noteq> ''Final Answer''" and "tool calculate_object \<noteq> ''ask_user_tool''"
        by (simp_all add: calculate_object_def)
      show "observe (build_tool_map []) 0 calculate_object
              = (Inr (PyStr (MSG_NOT_FOUND_PREFIX @ tool calculate_object @ MSG_NOT_FOUND_SUFFIX)), [])"
        by (rule observe_not_found) simp
      show "model_dump_json strict_lib calculate_object = Inl (PyException ''PydanticSerializationError'')"
        by (simp add: strict_lib_def calculate_object_def)
    qed
  qed
  then have "run_structured_react_engine strict_lib ''2+2?'' [] [] (scripted [calculate_object, final_answer]) demo_template = (Inr (PyStr (MSG_ENGINE_ERROR @ ''PydanticSerializationError'')),
           \<lparr>intermediate_steps_str = [], calls = [FormatCall [], CreateCall ''2+2?'']\<rparr>)"
    by (simp add: initial_state_def)
  moreover have "Action_validates calculate_object"
    by (simp add: Action_validates_def Action_tool_literals_def calculate_object_def)
  ultimately show ?thesis by simp
qed

text \<open>
  Claim C4, amended. When the passes \<open>0, ..., k - 1\<close> have completed and the decision of
  pass \<open>k < 10\<close> names a tool that is not the name of any tool of the list and is neither
  \<^verbatim>\<open>"Final Answer"\<close> nor \<^verbatim>\<open>ask_user_tool\<close>, no tool is invoked and the observation is
  "Error: '<name>' Tool cannot be found." with the name of the decision.
  \<^item> When \<^verbatim>\<open>model_dump_json\<close> yields the JSON text of the decision, pass \<open>k\<close> completes: it
    appends to the trace the entry made of the thought, the JSON text and this
    observation. The run goes on with the remaining passes from that state; when
    \<open>k + 1 < 10\<close>, pass \<open>k + 1\<close> begins by rendering the prompt from the trace that ends
    with this entry.
  \<^item> When \<^verbatim>\<open>model_dump_json\<close> raises, nothing is appended and the run ends in pass \<open>k\<close>:
    with the engine-error text for an \<^verbatim>\<open>Exception\<close>, with the exception otherwise.
\<close>

theorem unknown_tool_recovery:
  assumes "k < 10"
    and "completed (engine_body lib user_query chat_history tools structured_llm prompt_template) k = Some st"
    and "prompt_template user_query (render_history lib chat_history) (intermediate_steps_str st) = Inr prompt"
    and "structured_llm k prompt = Inr a"
    and "tool a \<notin> name ` set tools"
    and "tool a \<noteq> ''Final Answer''"
    and "tool a \<noteq> ''ask_user_tool''"
  shows "(\<forall>json st'.
            model_dump_json lib a = Inr json
            \<and> st' = \<lparr>intermediate_steps_str =
                       intermediate_steps_str st
                         @ NL @ ''Thought: '' @ thought a
                         @ NL @ ''Action: '' @ json
                         @ NL @ ''Observation: '' @ MSG_NOT_FOUND_PREFIX @ tool a @ MSG_NOT_FOUND_SUFFIX,
                     calls = calls st @ [FormatCall (intermediate_steps_str st), CreateCall prompt]\<rparr> \<longrightarrow>
            engine_body lib user_query chat_history tools structured_llm prompt_template k st = (Continue, st')
            \<and> completed (engine_body lib user_query chat_history tools structured_llm prompt_template) (Suc k) = Some st'
            \<and> run_structured_react_engine lib user_query chat_history tools structured_llm prompt_template = for_range (engine_body lib user_query chat_history tools structured_llm prompt_template) [Suc k..<10] st'
            \<and> (Suc k < 10 \<longrightarrow>
                  (\<exists>cs. calls (snd (run_structured_react_engine lib user_query chat_history tools structured_llm prompt_template)) = calls st' @ FormatCall (intermediate_steps_str st') # cs)))
         \<and> (\<forall>e. model_dump_json lib a = Inl e \<longrightarrow>
               run_structured_react_engine lib user_query chat_history tools structured_llm prompt_template
                 = (if is_Exception e then Inr (PyStr (MSG_ENGINE_ERROR @ exn_str e)) else Inl e,
                    st\<lparr>calls := calls st @ [FormatCall (intermediate_steps_str st), CreateCall prompt]\<rparr>))"
proof -
  let ?body = "engine_body lib user_query chat_history tools structured_llm prompt_template"
  let ?run = "run_structured_react_engine lib user_query chat_history tools structured_llm prompt_template"
  have obs: "observe (build_tool_map tools) k a
               = (Inr (PyStr (MSG_NOT_FOUND_PREFIX @ tool a @ MSG_NOT_FOUND_SUFFIX)), [])"
    using assms(5) by (rule observe_not_found)
  have recorded: "?body k st = (Continue, st')
            \<and> completed ?body (Suc k) = Some st'
            \<and> ?run = for_range ?body [Suc k..<10] st'
            \<and> (Suc k < 10 \<longrightarrow>
                  (\<exists>cs. calls (snd ?run) = calls st' @ FormatCall (intermediate_steps_str st') # cs))"
    if j: "model_dump_json lib a = Inr json"
      and s: "st' = \<lparr>intermediate_steps_str =
                       intermediate_steps_str st
                         @ NL @ ''Thought: '' @ thought a
                         @ NL @ ''Action: '' @ json
                         @ NL @ ''Observation: '' @ MSG_NOT_FOUND_PREFIX @ tool a @ MSG_NOT_FOUND_SUFFIX,
                     calls = calls st @ [FormatCall (intermediate_steps_str st), CreateCall prompt]\<rparr>"
    for json st'
  proof -
    from assms(3,4,6,7) obs j
    have "?body k st =
          (Continue,
           \<lparr>intermediate_steps_str =
               intermediate_steps_str st
                 @ NL @ ''Thought: '' @ thought a
                 @ NL @ ''Action: '' @ json
                 @ NL @ ''Observation: ''
                 @ py_format (object_str lib) (PyStr (MSG_NOT_FOUND_PREFIX @ tool a @ MSG_NOT_FOUND_SUFFIX)),
            calls = calls st @ [FormatCall (intermediate_steps_str st), CreateCall prompt] @ []\<rparr>)"
      by (rule engine_body_recorded)
    then have body: "?body k st = (Continue, st')"
      by (simp add: s)
    with assms(2) have c: "completed ?body (Suc k) = Some st'"
      by simp
    have run: "?run = for_range ?body [Suc k..<10] st'"
      using c by (rule run_resumes) (use assms(1) in simp)
    have "\<exists>cs. calls (snd ?run) = calls st' @ FormatCall (intermediate_steps_str st') # cs"
      if "Suc k < 10"
      using c that by (rule next_pass_begins)
    with body c run show ?thesis by blast
  qed
  have unrecorded: "?run
                 = (if is_Exception e then Inr (PyStr (MSG_ENGINE_ERROR @ exn_str e)) else Inl e,
                    st\<lparr>calls := calls st @ [FormatCall (intermediate_steps_str st), CreateCall prompt]\<rparr>)"
    if d: "model_dump_json lib a = Inl e" for e
  proof -
    from assms(3,4,6,7) obs d
    have "?body k st = (except_Exception e,
            st\<lparr>calls := calls st @ [FormatCall (intermediate_steps_str st), CreateCall prompt] @ []\<rparr>)"
      by (rule engine_body_dump_raises)
    with assms(2,1)
    have "?run = (if is_Exception e then Inr (PyStr (MSG_ENGINE_ERROR @ exn_str e)) else Inl e,
            st\<lparr>calls := calls st @ [FormatCall (intermediate_steps_str st), CreateCall prompt] @ []\<rparr>)"
      by (rule run_except_at)
    then show ?thesis by simp
  qed
  from recorded unrecorded show ?thesis by blast
qed

theorem unknown_tool_recovery_witness:
  "Action_validates calculate
   \<and> scripted [calculate, final_answer] 0 ''2+2?'' = Inr calculate
   \<and> tool calculate \<notin> name ` set ([] :: nat BaseTool list)
   \<and> tool calculate \<noteq> ''Final Answer''
   \<and> tool calculate \<noteq> ''ask_user_tool''
   \<and> model_dump_json demo_lib calculate = Inr ''{calculator_tool}''
   \<and> completed (engine_body demo_lib ''2+2?'' [] [] (scripted [calculate, final_answer]) demo_template) (Suc 0)
       = Some \<lparr>intermediate_steps_str =
                 NL @ ''Thought: compute'' @ NL @ ''Action: {calculator_tool}''
                   @ NL @ ''Observation: '' @ MSG_NOT_FOUND_PREFIX @ ''calculator_tool'' @ MSG_NOT_FOUND_SUFFIX,
               calls = [FormatCall [], CreateCall ''2+2?'']\<rparr>
   \<and> (\<exists>cs. calls (snd (run_structured_react_engine demo_lib ''2+2?'' [] [] (scripted [calculate, final_answer]) demo_template))
         = [FormatCall [], CreateCall ''2+2?'',
            FormatCall (NL @ ''Thought: compute'' @ NL @ ''Action: {calculator_tool}''
                   @ NL @ ''Observation: '' @ MSG_NOT_FOUND_PREFIX @ ''calculator_tool'' @ MSG_NOT_FOUND_SUFFIX)] @ cs)
   \<and> model_dump_json strict_lib calculate_object = Inl (PyException ''PydanticSerializationError'')
   \<and> fst (run_structured_react_engine strict_lib ''2+2?'' [] [] (scripted [calculate_object, final_answer]) demo_template) = Inr (PyStr (MSG_ENGINE_ERROR @ ''PydanticSerializationError''))"
proof -
  have k: "(0::nat) < 10" by simp
  have v: "Action_validates calculate"
    by (simp add: Action_validates_def Action_tool_literals_def calculate_def)
  \<comment> \<open>the step is recorded\<close>
  have c: "completed (engine_body demo_lib ''2+2?'' [] [] (scripted [calculate, final_answer]) demo_template) 0 = Some initial_state"
    by simp
  have l: "scripted [calculate, final_answer] 0 ''2+2?'' = Inr calculate" by simp
  have n: "tool calculate \<notin> name ` set ([] :: nat BaseTool list)"
    by simp
  have t: "tool calculate \<noteq> ''Final Answer''" "tool calculate \<noteq> ''ask_user_tool''"
    by (simp_all add: calculate_def)
  have j: "model_dump_json demo_lib calculate = Inr ''{calculator_tool}''"
    by (simp add: demo_lib_def calculate_def)
  let ?st' = "\<lparr>intermediate_steps_str =
                 NL @ ''Thought: compute'' @ NL @ ''Action: {calculator_tool}''
                   @ NL @ ''Observation: '' @ MSG_NOT_FOUND_PREFIX @ ''calculator_tool'' @ MSG_NOT_FOUND_SUFFIX,
               calls = [FormatCall [], CreateCall ''2+2?'']\<rparr> :: nat run_state"
  have s: "?st' = \<lparr>intermediate_steps_str =
                       intermediate_steps_str (initial_state :: nat run_state)
                         @ NL @ ''Thought: '' @ thought calculate
                         @ NL @ ''Action: '' @ ''{calculator_tool}''
                         @ NL @ ''Observation: '' @ MSG_NOT_FOUND_PREFIX @ tool calculate @ MSG_NOT_FOUND_SUFFIX,
                     calls = calls (initial_state :: nat run_state)
                       @ [FormatCall (intermediate_steps_str (initial_state :: nat run_state)), CreateCall ''2+2?'']\<rparr>"
    by (simp add: initial_state_def calculate_def)
  note r = unknown_tool_recovery [OF k c demo_prompt_initial l n t, THEN conjunct1,
      THEN spec, THEN spec, THEN mp, OF conjI [OF j s]]
  have c': "completed (engine_body demo_lib ''2+2?'' [] [] (scripted [calculate, final_answer]) demo_template) (Suc 0) = Some ?st'"
    using r [THEN conjunct2, THEN conjunct1] .
  have next_pass: "\<exists>cs. calls (snd (run_structured_react_engine demo_lib ''2+2?'' [] [] (scripted [calculate, final_answer]) demo_template))
         = [FormatCall [], CreateCall ''2+2?'',
            FormatCall (NL @ ''Thought: compute'' @ NL @ ''Action: {calculator_tool}''
                   @ NL @ ''Observation: '' @ MSG_NOT_FOUND_PREFIX @ ''calculator_tool'' @ MSG_NOT_FOUND_SUFFIX)] @ cs"
    using r [THEN conjunct2, THEN conjunct2, THEN conjunct2] by simp
  \<comment> \<open>the step cannot be recorded\<close>
  have c2: "completed (engine_body strict_lib ''2+2?'' [] [] (scripted [calculate_object, final_answer]) demo_template) 0 = Some initial_state"
    by simp
  have p2: "demo_template ''2+2?'' (render_history strict_lib []) (intermediate_steps_str (initial_state :: nat run_state))
              = Inr ''2+2?''"
    by (simp add: demo_template_def render_history_def initial_state_def)
  have l2: "scripted [calculate_object, final_answer] 0 ''2+2?'' = Inr calculate_object" by simp
  have n2: "tool calculate_object \<notin> name ` set ([] :: nat BaseTool list)"
    by simp
  have t2: "tool calculate_object \<noteq> ''Final Answer''" "tool calculate_object \<noteq> ''ask_user_tool''"
    by (simp_all add: calculate_object_def)
  have d2: "model_dump_json strict_lib calculate_object = Inl (PyException ''PydanticSerializationError'')"
    by (simp add: strict_lib_def calculate_object_def)
  have ended: "fst (run_structured_react_engine strict_lib ''2+2?'' [] [] (scripted [calculate_object, final_answer]) demo_template) = Inr (PyStr (MSG_ENGINE_ERROR @ ''PydanticSerializationError''))"
    using unknown_tool_recovery [OF k c2 p2 l2 n2 t2, THEN conjunct2] d2 by simp
  from v l n t j c' next_pass d2 ended show ?thesis by blast
qed

section \<open>A failing tool is recoverable\<close>

text \<open>
  Claim C5 says that an exception of a tool invocation never leaves the run. Both
  handlers are \<^verbatim>\<open>except Exception\<close> (lines 324 and 334): when the calculator of the tool
  list raises \<^verbatim>\<open>SystemExit\<close>, which is not an \<^verbatim>\<open>Exception\<close>, the exception leaves the run
  in that pass, and no observation is recorded.
\<close>

theorem tool_SystemExit_leaves_run:
  "build_tool_map exit_tools (tool calculate)
     = Some \<lparr>name = ''calculator_tool'', invoke = exiting ''SystemExit''\<rparr>
   \<and> invoke \<lparr>name = ''calculator_tool'', invoke = exiting ''SystemExit''\<rparr> 0 (tool_input calculate)
       = Inl (PyBaseException ''SystemExit'')
   \<and> run_structured_react_engine demo_lib ''2+2?'' [] exit_tools (scripted [calculate, final_answer]) demo_template = (Inl (PyBaseException ''SystemExit''),
           \<lparr>intermediate_steps_str = [],
            calls = [FormatCall [], CreateCall ''2+2?'', InvokeCall ''calculator_tool'' (PyStr ''2+2'')]\<rparr>)"
proof -
  have m: "build_tool_map exit_tools (tool calculate)
     = Some \<lparr>name = ''calculator_tool'', invoke = exiting ''SystemExit''\<rparr>"
    by (simp add: build_tool_map_def exit_tools_def get_tools_def calculate_def)
  have i: "invoke \<lparr>name = ''calculator_tool'', invoke = exiting ''SystemExit''\<rparr> 0 (tool_input calculate)
       = Inl (PyBaseException ''SystemExit'')"
    by (simp add: exiting_def)
  have "run_structured_react_engine demo_lib ''2+2?'' [] exit_tools (scripted [calculate, final_answer]) demo_template = (if is_Exception (PyBaseException ''SystemExit'')
              then Inr (PyStr (MSG_ENGINE_ERROR @ exn_str (PyBaseException ''SystemExit'')))
              else Inl (PyBaseException ''SystemExit''),
              initial_state\<lparr>calls := calls (initial_state :: nat run_state)
                 @ [FormatCall (intermediate_steps_str (initial_state :: nat run_state)), CreateCall ''2+2?'']
                 @ [InvokeCall ''calculator_tool'' (PyStr ''2+2'')]\<rparr>)"
  proof (rule run_except_at)
    show "completed (engine_body demo_lib ''2+2?'' [] exit_tools (scripted [calculate, final_answer]) demo_template) 0 = Some initial_state"
      by simp
    show "(0::nat) < 10" by simp
    show "(engine_body demo_lib ''2+2?'' [] exit_tools (scripted [calculate, final_answer]) demo_template) 0 initial_state
            = (except_Exception (PyBaseException ''SystemExit''),
               initial_state\<lparr>calls := calls (initial_state :: nat run_state)
                 @ [FormatCall (intermediate_steps_str (initial_state :: nat run_state)), CreateCall ''2+2?'']
                 @ [InvokeCall ''calculator_tool'' (PyStr ''2+2'')]\<rparr>)"
    proof (rule engine_body_tool_escapes)
      show "demo_template ''2+2?'' (render_history demo_lib []) (intermediate_steps_str (initial_state :: nat run_state))
              = Inr ''2+2?''"
        by (rule demo_prompt_initial)
      show "scripted [calculate, final_answer] 0 ''2+2?'' = Inr calculate"
        by simp
      show "tool calculate \<noteq> ''Final Answer''" and "tool calculate \<noteq> ''ask_user_tool''"
        by (simp_all add: calculate_def)
      show "observe (build_tool_map exit_tools) 0 calculate
              = (Inl (PyBaseException ''SystemExit''), [InvokeCall ''calculator_tool'' (PyStr ''2+2'')])"
        using m i by (simp add: observe_found) (simp add: calculate_def)
    qed
  qed
  then have "run_structured_react_engine demo_lib ''2+2?'' [] exit_tools (scripted [calculate, final_answer]) demo_template = (Inl (PyBaseException ''SystemExit''),
           \<lparr>intermediate_steps_str = [],
            calls = [FormatCall [], CreateCall ''2+2?'', InvokeCall ''calculator_tool'' (PyStr ''2+2'')]\<rparr>)"
    by (simp add: initial_state_def)
  with m i show ?thesis by simp
qed

text \<open>
  Claim C5, amended. When the passes \<open>0, ..., k - 1\<close> have completed, the decision of
  pass \<open>k < 10\<close> names a tool of the tool map (and is neither \<^verbatim>\<open>"Final Answer"\<close> nor
  \<^verbatim>\<open>ask_user_tool\<close>) and the invocation of that tool raises \<open>e\<close>:
  \<^item> when \<open>e\<close> is an \<^verbatim>\<open>Exception\<close>, the observation is "Error while running the tool: "
    followed by \<^verbatim>\<open>str(e)\<close>, and \<open>e\<close> does not leave the run. When \<^verbatim>\<open>model_dump_json\<close>
    yields the JSON text of the decision, pass \<open>k\<close> completes: it appends to the trace
    the entry made of the thought, the JSON text and this observation, and the run goes
    on with the remaining passes from that state (when \<open>k + 1 < 10\<close>, pass \<open>k + 1\<close> begins
    by rendering the prompt from the trace that ends with this entry). When
    \<^verbatim>\<open>model_dump_json\<close> raises, nothing is appended and the run ends in pass \<open>k\<close>, with
    the engine-error text for an \<^verbatim>\<open>Exception\<close> and with that exception otherwise;
  \<^item> when \<open>e\<close> is not an \<^verbatim>\<open>Exception\<close>, it passes both handlers and leaves the run.
\<close>

theorem tool_failure_isolation:
  assumes "k < 10"
    and "completed (engine_body lib user_query chat_history tools structured_llm prompt_template) k = Some st"
    and "prompt_template user_query (render_history lib chat_history) (intermediate_steps_str st) = Inr prompt"
    and "structured_llm k prompt = Inr a"
    and "tool a \<noteq> ''Final Answer''"
    and "tool a \<noteq> ''ask_user_tool''"
    and "build_tool_map tools (tool a) = Some t"
    and "invoke t k (tool_input a) = Inl e"
  shows "(is_Exception e \<longrightarrow>
           (\<forall>json st'.
              model_dump_json lib a = Inr json
              \<and> st' = \<lparr>intermediate_steps_str =
                         intermediate_steps_str st
                           @ NL @ ''Thought: '' @ thought a
                           @ NL @ ''Action: '' @ json
                           @ NL @ ''Observation: '' @ MSG_TOOL_ERROR @ exn_str e,
                       calls = calls st @ [FormatCall (intermediate_steps_str st), CreateCall prompt,
                                           InvokeCall (tool a) (tool_input a)]\<rparr> \<longrightarrow>
              engine_body lib user_query chat_history tools structured_llm prompt_template k st = (Continue, st')
              \<and> completed (engine_body lib user_query chat_history tools structured_llm prompt_template) (Suc k) = Some st'
              \<and> run_structured_react_engine lib user_query chat_history tools structured_llm prompt_template = for_range (engine_body lib user_query chat_history tools structured_llm prompt_template) [Suc k..<10] st'
              \<and> (Suc k < 10 \<longrightarrow>
                    (\<exists>cs. calls (snd (run_structured_react_engine lib user_query chat_history tools structured_llm prompt_template)) = calls st' @ FormatCall (intermediate_steps_str st') # cs)))
           \<and> (\<forall>e'. model_dump_json lib a = Inl e' \<longrightarrow>
                 run_structured_react_engine lib user_query chat_history tools structured_llm prompt_template
                   = (if is_Exception e' then Inr (PyStr (MSG_ENGINE_ERROR @ exn_str e')) else Inl e',
                      st\<lparr>calls := calls st @ [FormatCall (intermediate_steps_str st), CreateCall prompt,
                                              InvokeCall (tool a) (tool_input a)]\<rparr>)))
         \<and> (\<not> is_Exception e \<longrightarrow>
               run_structured_react_engine lib user_query chat_history tools structured_llm prompt_template
                 = (Inl e,
                    st\<lparr>calls := calls st @ [FormatCall (intermediate_steps_str st), CreateCall prompt,
                                            InvokeCall (tool a) (tool_input a)]\<rparr>))"
proof -
  let ?body = "engine_body lib user_query chat_history tools structured_llm prompt_template"
  let ?run = "run_structured_react_engine lib user_query chat_history tools structured_llm prompt_template"
  have found: "observe (build_tool_map tools) k a
               = (if is_Exception e then Inr (PyStr (MSG_TOOL_ERROR @ exn_str e)) else Inl e,
                  [InvokeCall (tool a) (tool_input a)])"
    using assms(7,8) by (simp add: observe_found)
  have recorded: "?body k st = (Continue, st')
              \<and> completed ?body (Suc k) = Some st'
              \<and> ?run = for_range ?body [Suc k..<10] st'
              \<and> (Suc k < 10 \<longrightarrow>
                    (\<exists>cs. calls (snd ?run) = calls st' @ FormatCall (intermediate_steps_str st') # cs))"
    if x: "is_Exception e" and j: "model_dump_json lib a = Inr json"
      and s: "st' = \<lparr>intermediate_steps_str =
                         intermediate_steps_str st
                           @ NL @ ''Thought: '' @ thought a
                           @ NL @ ''Action: '' @ json
                           @ NL @ ''Observation: '' @ MSG_TOOL_ERROR @ exn_str e,
                       calls = calls st @ [FormatCall (intermediate_steps_str st), CreateCall prompt,
                                           InvokeCall (tool a) (tool_input a)]\<rparr>"
    for json st'
  proof -
    have obs: "observe (build_tool_map tools) k a
               = (Inr (PyStr (MSG_TOOL_ERROR @ exn_str e)), [InvokeCall (tool a) (tool_input a)])"
      using found x by simp
    from assms(3-6) obs j
    have "?body k st =
          (Continue,
           \<lparr>intermediate_steps_str =
               intermediate_steps_str st
                 @ NL @ ''Thought: '' @ thought a
                 @ NL @ ''Action: '' @ json
                 @ NL @ ''Observation: '' @ py_format (object_str lib) (PyStr (MSG_TOOL_ERROR @ exn_str e)),
            calls = calls st @ [FormatCall (intermediate_steps_str st), CreateCall prompt]
                      @ [InvokeCall (tool a) (tool_input a)]\<rparr>)"
      by (rule engine_body_recorded)
    then have body: "?body k st = (Continue, st')"
      by (simp add: s)
    with assms(2) have c: "completed ?body (Suc k) = Some st'"
      by simp
    have run: "?run = for_range ?body [Suc k..<10] st'"
      using c by (rule run_resumes) (use assms(1) in simp)
    have "\<exists>cs. calls (snd ?run) = calls st' @ FormatCall (intermediate_steps_str st') # cs"
      if "Suc k < 10"
      using c that by (rule next_pass_begins)
    with body c run show ?thesis by blast
  qed
  have unrecorded: "?run
                   = (if is_Exception e' then Inr (PyStr (MSG_ENGINE_ERROR @ exn_str e')) else Inl e',
                      st\<lparr>calls := calls st @ [FormatCall (intermediate_steps_str st), CreateCall prompt,
                                              InvokeCall (tool a) (tool_input a)]\<rparr>)"
    if x: "is_Exception e" and d: "model_dump_json lib a = Inl e'" for e'
  proof -
    have obs: "observe (build_tool_map tools) k a
               = (Inr (PyStr (MSG_TOOL_ERROR @ exn_str e)), [InvokeCall (tool a) (tool_input a)])"
      using found x by simp
    from assms(3-6) obs d
    have "?body k st = (except_Exception e',
            st\<lparr>calls := calls st @ [FormatCall (intermediate_steps_str st), CreateCall prompt]
                      @ [InvokeCall (tool a) (tool_input a)]\<rparr>)"
      by (rule engine_body_dump_raises)
    with assms(2,1)
    have "?run = (if is_Exception e' then Inr (PyStr (MSG_ENGINE_ERROR @ exn_str e')) else Inl e',
            st\<lparr>calls := calls st @ [FormatCall (intermediate_steps_str st), CreateCall prompt]
                      @ [InvokeCall (tool a) (tool_input a)]\<rparr>)"
      by (rule run_except_at)
    then show ?thesis by simp
  qed
  have escapes: "?run
                 = (Inl e,
                    st\<lparr>calls := calls st @ [FormatCall (intermediate_steps_str st), CreateCall prompt,
                                            InvokeCall (tool a) (tool_input a)]\<rparr>)"
    if x: "\<not> is_Exception e"
  proof -
    have obs: "observe (build_tool_map tools) k a = (Inl e, [InvokeCall (tool a) (tool_input a)])"
      using found x by simp
    from assms(3-6) obs
    have "?body k st = (except_Exception e,
            st\<lparr>calls := calls st @ [FormatCall (intermediate_steps_str st), CreateCall prompt]
                      @ [InvokeCall (tool a) (tool_input a)]\<rparr>)"
      by (rule engine_body_tool_escapes)
    with assms(2,1)
    have "?run = (if is_Exception e then Inr (PyStr (MSG_ENGINE_ERROR @ exn_str e)) else Inl e,
            st\<lparr>calls := calls st @ [FormatCall (intermediate_steps_str st), CreateCall prompt]
                      @ [InvokeCall (tool a) (tool_input a)]\<rparr>)"
      by (rule run_except_at)
    with x show ?thesis by simp
  qed
  from recorded unrecorded escapes show ?thesis by blast
qed

theorem tool_failure_isolation_witness:
  "scripted [ask_wolfram, final_answer] 0 ''2+2?'' = Inr ask_wolfram
   \<and> tool ask_wolfram \<noteq> ''Final Answer''
   \<and> tool ask_wolfram \<noteq> ''ask_user_tool''
   \<and> build_tool_map demo_tools (tool ask_wolfram)
       = Some \<lparr>name = ''wolfram_alpha_tool'', invoke = raising ''HTTP Error 503''\<rparr>
   \<and> invoke \<lparr>name = ''wolfram_alpha_tool'', invoke = raising ''HTTP Error 503''\<rparr> 0 (tool_input ask_wolfram)
       = Inl (PyException ''HTTP Error 503'')
   \<and> is_Exception (PyException ''HTTP Error 503'')
   \<and> model_dump_json demo_lib ask_wolfram = Inr ''{wolfram_alpha_tool}''
   \<and> completed (engine_body demo_lib ''2+2?'' [] demo_tools (scripted [ask_wolfram, final_answer]) demo_template) (Suc 0)
       = Some \<lparr>intermediate_steps_str =
                 NL @ ''Thought: integrate'' @ NL @ ''Action: {wolfram_alpha_tool}''
                   @ NL @ ''Observation: '' @ MSG_TOOL_ERROR @ ''HTTP Error 503'',
               calls = [FormatCall [], CreateCall ''2+2?'', InvokeCall ''wolfram_alpha_tool'' (PyStr ''int x dx'')]\<rparr>
   \<and> (\<exists>cs. calls (snd (run_structured_react_engine demo_lib ''2+2?'' [] demo_tools (scripted [ask_wolfram, final_answer]) demo_template))
         = [FormatCall [], CreateCall ''2+2?'', InvokeCall ''wolfram_alpha_tool'' (PyStr ''int x dx''),
            FormatCall (NL @ ''Thought: integrate'' @ NL @ ''Action: {wolfram_alpha_tool}''
                   @ NL @ ''Observation: '' @ MSG_TOOL_ERROR @ ''HTTP Error 503'')] @ cs)
   \<and> invoke \<lparr>name = ''calculator_tool'', invoke = exiting ''SystemExit''\<rparr> 0 (tool_input calculate)
       = Inl (PyBaseException ''SystemExit'')
   \<and> \<not> is_Exception (PyBaseException ''SystemExit'')
   \<and> fst (run_structured_react_engine demo_lib ''2+2?'' [] exit_tools (scripted [calculate, final_answer]) demo_template) = Inl (PyBaseException ''SystemExit'')"
proof -
  have k: "(0::nat) < 10" by simp
  \<comment> \<open>the tool raises an \<^verbatim>\<open>Exception\<close>\<close>
  have c: "completed (engine_body demo_lib ''2+2?'' [] demo_tools (scripted [ask_wolfram, final_answer]) demo_template) 0 = Some initial_state"
    by simp
  have l: "scripted [ask_wolfram, final_answer] 0 ''2+2?'' = Inr ask_wolfram" by simp
  have t: "tool ask_wolfram \<noteq> ''Final Answer''" "tool ask_wolfram \<noteq> ''ask_user_tool''"
    by (simp_all add: ask_wolfram_def)
  have m: "build_tool_map demo_tools (tool ask_wolfram)
       = Some \<lparr>name = ''wolfram_alpha_tool'', invoke = raising ''HTTP Error 503''\<rparr>"
    by (simp add: ask_wolfram_def demo_tool_map)
  have i: "invoke \<lparr>name = ''wolfram_alpha_tool'', invoke = raising ''HTTP Error 503''\<rparr> 0 (tool_input ask_wolfram)
       = Inl (PyException ''HTTP Error 503'')"
    by (simp add: raising_def)
  have x: "is_Exception (PyException ''HTTP Error 503'')"
    by simp
  have j: "model_dump_json demo_lib ask_wolfram = Inr ''{wolfram_alpha_tool}''"
    by (simp add: demo_lib_def ask_wolfram_def)
  let ?st' = "\<lparr>intermediate_steps_str =
                 NL @ ''Thought: integrate'' @ NL @ ''Action: {wolfram_alpha_tool}''
                   @ NL @ ''Observation: '' @ MSG_TOOL_ERROR @ ''HTTP Error 503'',
               calls = [FormatCall [], CreateCall ''2+2?'', InvokeCall ''wolfram_alpha_tool'' (PyStr ''int x dx'')]\<rparr>
              :: nat run_state"
  have s: "?st' = \<lparr>intermediate_steps_str =
                         intermediate_steps_str (initial_state :: nat run_state)
                           @ NL @ ''Thought: '' @ thought ask_wolfram
                           @ NL @ ''Action: '' @ ''{wolfram_alpha_tool}''
                           @ NL @ ''Observation: '' @ MSG_TOOL_ERROR @ exn_str (PyException ''HTTP Error 503''),
                       calls = calls (initial_state :: nat run_state)
                         @ [FormatCall (intermediate_steps_str (initial_state :: nat run_state)), CreateCall ''2+2?'',
                            InvokeCall (tool ask_wolfram) (tool_input ask_wolfram)]\<rparr>"
    by (simp add: initial_state_def ask_wolfram_def)
  note r = tool_failure_isolation [OF k c demo_prompt_initial l t m i, THEN conjunct1, THEN mp, OF x,
      THEN conjunct1, THEN spec, THEN spec, THEN mp, OF conjI [OF j s]]
  have c': "completed (engine_body demo_lib ''2+2?'' [] demo_tools (scripted [ask_wolfram, final_answer]) demo_template) (Suc 0) = Some ?st'"
    using r [THEN conjunct2, THEN conjunct1] .
  have next_pass: "\<exists>cs. calls (snd (run_structured_react_engine demo_lib ''2+2?'' [] demo_tools (scripted [ask_wolfram, final_answer]) demo_template))
         = [FormatCall [], CreateCall ''2+2?'', InvokeCall ''wolfram_alpha_tool'' (PyStr ''int x dx''),
            FormatCall (NL @ ''Thought: integrate'' @ NL @ ''Action: {wolfram_alpha_tool}''
                   @ NL @ ''Observation: '' @ MSG_TOOL_ERROR @ ''HTTP Error 503'')] @ cs"
    using r [THEN conjunct2, THEN conjunct2, THEN conjunct2] by simp
  \<comment> \<open>the tool raises \<^verbatim>\<open>SystemExit\<close>\<close>
  have c2: "completed (engine_body demo_lib ''2+2?'' [] exit_tools (scripted [calculate, final_answer]) demo_template) 0 = Some initial_state"
    by simp
  have l2: "scripted [calculate, final_answer] 0 ''2+2?'' = Inr calculate" by simp
  have t2: "tool calculate \<noteq> ''Final Answer''" "tool calculate \<noteq> ''ask_user_tool''"
    by (simp_all add: calculate_def)
  have m2: "build_tool_map exit_tools (tool calculate)
     = Some \<lparr>name = ''calculator_tool'', invoke = exiting ''SystemExit''\<rparr>"
    by (simp add: build_tool_map_def exit_tools_def get_tools_def calculate_def)
  have i2: "invoke \<lparr>name = ''calculator_tool'', invoke = exiting ''SystemExit''\<rparr> 0 (tool_input calculate)
       = Inl (PyBaseException ''SystemExit'')"
    by (simp add: exiting_def)
  have x2: "\<not> is_Exception (PyBaseException ''SystemExit'')"
    by simp
  have left: "fst (run_structured_react_engine demo_lib ''2+2?'' [] exit_tools (scripted [calculate, final_answer]) demo_template) = Inl (PyBaseException ''SystemExit'')"
    using tool_failure_isolation [OF k c2 demo_prompt_initial l2 t2 m2 i2, THEN conjunct2, THEN mp, OF x2]
    by simp
  from l t m i x j c' next_pass i2 x2 left show ?thesis by blast
qed

section \<open>The value that a run returns\<close>

text \<open>
  Claim C6 says that a run always returns a text. The final-answer branch returns the
  \<^verbatim>\<open>tool_input\<close> of the decision as it is (line 303), and the schema gives that field
  the type \<^verbatim>\<open>Any\<close>: with a final answer whose \<^verbatim>\<open>tool_input\<close> is the number 4, the
  run returns that number, not a text.
\<close>

theorem final_answer_returns_tool_input_unconverted:
  "fst (run_structured_react_engine demo_lib ''2+2?'' [] demo_tools (always final_number) demo_template)
     = Inr (PyObj 4)
   \<and> \<not> is_str (PyObj (4::nat))"
  by (simp add: run_final_number)

text \<open>
  Claim C6, amended. Whatever a run returns is a text, or it is the \<^verbatim>\<open>tool_input\<close> of a
  decision with the tool \<^verbatim>\<open>"Final Answer"\<close> that one of the ten passes received, returned
  as it is. So the question to the user, the "max iterations" message and the
  engine-error message are texts, and the final answer is a text exactly when its
  \<^verbatim>\<open>tool_input\<close> is one: when every final-answer decision carries a \<^verbatim>\<open>str\<close>, every
  returned value is a text.
\<close>

theorem returned_value_is_text_or_final_tool_input:
  "(\<forall>v. fst (run_structured_react_engine lib user_query chat_history tools structured_llm prompt_template) = Inr v \<longrightarrow>
        is_str v
        \<or> (\<exists>k prompt a. k < 10 \<and> structured_llm k prompt = Inr a \<and> tool a = ''Final Answer'' \<and> v = tool_input a))
   \<and> ((\<forall>k prompt a. structured_llm k prompt = Inr a \<and> tool a = ''Final Answer'' \<longrightarrow> is_str (tool_input a)) \<longrightarrow>
        (\<forall>v. fst (run_structured_react_engine lib user_query chat_history tools structured_llm prompt_template) = Inr v \<longrightarrow>
           is_str v))"
proof -
  let ?body = "engine_body lib user_query chat_history tools structured_llm prompt_template"
  let ?run = "run_structured_react_engine lib user_query chat_history tools structured_llm prompt_template"
  have 1: "is_str v
        \<or> (\<exists>k prompt a. k < 10 \<and> structured_llm k prompt = Inr a \<and> tool a = ''Final Answer'' \<and> v = tool_input a)"
    if "fst ?run = Inr v" for v
  proof -
    from that have "fst (for_range ?body [0..<10] initial_state) = Inr v"
      by (simp add: run_structured_react_engine_def)
    then consider "v = PyStr MSG_MAX_ITERATIONS"
      | i s where "i \<in> set [0..<10]" and "fst (?body i s) = Return v"
      using for_range_Inr_mem by blast
    then show ?thesis
    proof cases
      case 1
      then show ?thesis by simp
    next
      case 2
      from 2(2) have "is_str v \<or> (\<exists>prompt a. structured_llm i prompt = Inr a \<and> tool a = ''Final Answer'' \<and> v = tool_input a)"
        by (rule engine_body_ReturnD)
      moreover from 2(1) have "i < 10" by simp
      ultimately show ?thesis by blast
    qed
  qed
  then show ?thesis by blast
qed

theorem returned_value_is_text_or_final_tool_input_witness:
  "fst (run_structured_react_engine demo_lib ''2+2?'' [] demo_tools (always final_number) demo_template)
     = Inr (PyObj 4)
   \<and> (\<exists>k prompt a. k < 10 \<and> always final_number k prompt = Inr a \<and> tool a = ''Final Answer''
         \<and> PyObj 4 = tool_input a)
   \<and> fst (run_structured_react_engine demo_lib ''2+2?'' [] demo_tools (always final_answer) demo_template)
       = Inr (PyStr ''2+2 = 4'')
   \<and> is_str (PyStr ''2+2 = 4'' :: nat pyval)"
proof -
  have r: "fst (run_structured_react_engine demo_lib ''2+2?'' [] demo_tools (always final_number) demo_template)
     = Inr (PyObj 4)"
    by (simp add: run_final_number)
  have 1: "\<exists>k prompt a. k < 10 \<and> always final_number k prompt = Inr a \<and> tool a = ''Final Answer''
         \<and> PyObj 4 = tool_input a"
    using returned_value_is_text_or_final_tool_input
            [of demo_lib "''2+2?''" "[]" demo_tools "always final_number" demo_template, THEN conjunct1] r
    by fastforce
  have h: "\<forall>k prompt a. always final_answer k prompt = Inr a \<and> tool a = ''Final Answer'' \<longrightarrow> is_str (tool_input a)"
    by (simp add: always_def final_answer_def)
  have "run_structured_react_engine demo_lib ''2+2?'' [] demo_tools (always final_answer) demo_template
          = (Inr (PyStr ''2+2 = 4''), \<lparr>intermediate_steps_str = [], calls = [FormatCall [], CreateCall ''2+2?'']\<rparr>)"
  proof (rule run_returns_at)
    show "completed (engine_body demo_lib ''2+2?'' [] demo_tools (always final_answer) demo_template) 0
            = Some initial_state"
      by simp
    show "(0::nat) < 10" by simp
    have "engine_body demo_lib ''2+2?'' [] demo_tools (always final_answer) demo_template 0 initial_state
            = (Return (tool_input final_answer),
               initial_state\<lparr>calls := calls (initial_state :: nat run_state)
                  @ [FormatCall (intermediate_steps_str (initial_state :: nat run_state)), CreateCall ''2+2?'']\<rparr>)"
      by (rule engine_body_final_answer)
         (simp_all add: demo_prompt_initial always_def final_answer_def)
    then show "engine_body demo_lib ''2+2?'' [] demo_tools (always final_answer) demo_template 0 initial_state
            = (Return (PyStr ''2+2 = 4''), \<lparr>intermediate_steps_str = [], calls = [FormatCall [], CreateCall ''2+2?'']\<rparr>)"
      by (simp add: initial_state_def final_answer_def)
  qed
  then have r2: "fst (run_structured_react_engine demo_lib ''2+2?'' [] demo_tools (always final_answer) demo_template)
       = Inr (PyStr ''2+2 = 4'')"
    by simp
  have 2: "is_str (PyStr ''2+2 = 4'' :: nat pyval)"
    using returned_value_is_text_or_final_tool_input
            [of demo_lib "''2+2?''" "[]" demo_tools "always final_answer" demo_template, THEN conjunct2] h r2
    by blast
  from r 1 r2 2 show ?thesis by blast
qed

section \<open>The question to the user ends the run\<close>

text \<open>
  Claim C7. When the passes \<open>0, ..., k - 1\<close> have completed and the decision of pass
  \<open>k < 10\<close> names \<^verbatim>\<open>ask_user_tool\<close>, the run ends in that pass, whatever remains of
  the ten passes: it returns the formatted text that holds the \<^verbatim>\<open>tool_input\<close> of the
  decision as the f-string renders it, so the question itself when the \<^verbatim>\<open>tool_input\<close>
  is a \<^verbatim>\<open>str\<close>. The only calls of the pass are the rendering of the prompt and the
  decision request: no tool is invoked for the decision, and nothing follows.
\<close>

theorem ask_user_short_circuit:
  assumes "k < 10"
    and "completed (engine_body lib user_query chat_history tools structured_llm prompt_template) k = Some st"
    and "prompt_template user_query (render_history lib chat_history) (intermediate_steps_str st) = Inr prompt"
    and "structured_llm k prompt = Inr a"
    and "tool a = ''ask_user_tool''"
  shows "run_structured_react_engine lib user_query chat_history tools structured_llm prompt_template
           = (Inr (PyStr (MSG_ASK_PREFIX @ py_format (object_str lib) (tool_input a) @ MSG_ASK_SUFFIX)),
              st\<lparr>calls := calls st @ [FormatCall (intermediate_steps_str st), CreateCall prompt]\<rparr>)
         \<and> (\<forall>question. tool_input a = PyStr question \<longrightarrow>
               fst (run_structured_react_engine lib user_query chat_history tools structured_llm prompt_template)
                 = Inr (PyStr (MSG_ASK_PREFIX @ question @ MSG_ASK_SUFFIX)))
         \<and> filter is_invoke (calls (snd (run_structured_react_engine lib user_query chat_history tools structured_llm prompt_template)))
             = filter is_invoke (calls st)"
proof -
  let ?body = "engine_body lib user_query chat_history tools structured_llm prompt_template"
  let ?run = "run_structured_react_engine lib user_query chat_history tools structured_llm prompt_template"
  have "?run = for_range ?body [k..<10] st"
    using assms(2) by (rule run_resumes) (use assms(1) in simp)
  also have "[k..<10] = k # [Suc k..<10]"
    using assms(1) by (simp add: upt_conv_Cons)
  finally have run: "?run = for_range ?body (k # [Suc k..<10]) st" .
  from assms(3-5)
  have "?body k st = (Return (PyStr (MSG_ASK_PREFIX @ py_format (object_str lib) (tool_input a) @ MSG_ASK_SUFFIX)),
              st\<lparr>calls := calls st @ [FormatCall (intermediate_steps_str st), CreateCall prompt]\<rparr>)"
    by (rule engine_body_ask_user)
  with run have "?run = (Inr (PyStr (MSG_ASK_PREFIX @ py_format (object_str lib) (tool_input a) @ MSG_ASK_SUFFIX)),
              st\<lparr>calls := calls st @ [FormatCall (intermediate_steps_str st), CreateCall prompt]\<rparr>)"
    by simp
  then show ?thesis by simp
qed

theorem ask_user_short_circuit_witness:
  "Suc 0 < 10
   \<and> completed (engine_body demo_lib ''2+2?'' [] demo_tools (scripted [calculate, ask_exam]) demo_template) (Suc 0)
       = Some state_after_calculate
   \<and> (\<exists>prompt. demo_template ''2+2?'' (render_history demo_lib []) (intermediate_steps_str state_after_calculate) = Inr prompt
        \<and> scripted [calculate, ask_exam] (Suc 0) prompt = Inr ask_exam)
   \<and> tool ask_exam = ''ask_user_tool''
   \<and> tool_input ask_exam = PyStr ''Which exam?''
   \<and> fst (run_structured_react_engine demo_lib ''2+2?'' [] demo_tools (scripted [calculate, ask_exam]) demo_template)
       = Inr (PyStr (MSG_ASK_PREFIX @ ''Which exam?'' @ MSG_ASK_SUFFIX))
   \<and> filter is_invoke (calls (snd (run_structured_react_engine demo_lib ''2+2?'' [] demo_tools
        (scripted [calculate, ask_exam]) demo_template)))
       = [InvokeCall ''calculator_tool'' (PyStr ''2+2'')]"
proof -
  have k: "Suc 0 < 10" by simp
  have t: "tool ask_exam = ''ask_user_tool''"
    by (simp add: ask_exam_def)
  have i: "tool_input ask_exam = PyStr ''Which exam?''"
    by (simp add: ask_exam_def)
  have p: "demo_template ''2+2?'' (render_history demo_lib []) (intermediate_steps_str state_after_calculate)
             = Inr (render_history demo_lib [] @ intermediate_steps_str state_after_calculate @ ''2+2?'')"
    by (simp add: demo_template_def)
  have l: "scripted [calculate, ask_exam] (Suc 0)
             (render_history demo_lib [] @ intermediate_steps_str state_after_calculate @ ''2+2?'') = Inr ask_exam"
    by simp
  have e: "\<exists>prompt. demo_template ''2+2?'' (render_history demo_lib []) (intermediate_steps_str state_after_calculate) = Inr prompt
        \<and> scripted [calculate, ask_exam] (Suc 0) prompt = Inr ask_exam"
    using p l by blast
  note r = ask_user_short_circuit [OF k completed_calculate p l t]
  have "fst (run_structured_react_engine demo_lib ''2+2?'' [] demo_tools (scripted [calculate, ask_exam]) demo_template)
       = Inr (PyStr (MSG_ASK_PREFIX @ ''Which exam?'' @ MSG_ASK_SUFFIX))"
    using r [THEN conjunct2, THEN conjunct1] i by blast
  moreover
  have "filter is_invoke (calls (snd (run_structured_react_engine demo_lib ''2+2?'' [] demo_tools
        (scripted [calculate, ask_exam]) demo_template)))
       = [InvokeCall ''calculator_tool'' (PyStr ''2+2'')]"
    using r [THEN conjunct2, THEN conjunct2] by (simp add: state_after_calculate_def)
  ultimately show ?thesis using k completed_calculate e t i by blast
qed

section \<open>The tool map\<close>

text \<open>
  Claim C8 says that two tools with the same name in the tool list are reported as a
  configuration error when the registry is built. The tool map is a dictionary
  comprehension at the start of each run (line 271), which reports nothing: with two
  tools named \<^verbatim>\<open>lookup\<close> the name resolves to the second one, the run invokes it in the
  first pass and goes on.
\<close>

theorem name_collision_resolved_silently:
  "build_tool_map [first_lookup, second_lookup] ''lookup'' = Some second_lookup
   \<and> completed (engine_body demo_lib ''2+2?'' [] [first_lookup, second_lookup]
                  (scripted [use_lookup, final_answer]) demo_template) (Suc 0)
       = Some \<lparr>intermediate_steps_str =
                 NL @ ''Thought: look it up'' @ NL @ ''Action: {lookup}'' @ NL @ ''Observation: second'',
               calls = [FormatCall [], CreateCall ''2+2?'', InvokeCall ''lookup'' (PyStr ''isabelle'')]\<rparr>"
  by (simp only: lookup_tool_map completed_lookup simp_thms)

text \<open>
  Claim C8, amended. The tool map resolves a name to at most one tool, the last tool of
  the list that has this name (so a tool list with two tools of the same name yields a
  map, not an error, and the later tool hides the earlier one); and the six tools of
  \<^verbatim>\<open>get_tools\<close> have pairwise distinct names.
\<close>

theorem tool_map_resolves_last_of_name:
  "build_tool_map tools nm = List.find (\<lambda>t. name t = nm) (rev tools)
   \<and> distinct (map name (get_tools search calculator wolfram_alpha blog_template ask_user create_study_plan))"
  by (simp add: build_tool_map_find get_tools_def)

section \<open>The trace grows by one entry per completed pass\<close>



section \<open>A decision that the schema admits is dispatched to a tool\<close>

text \<open>
  Claim C10. For a decision whose \<^verbatim>\<open>tool\<close> is one of the seven values of the
  \<^verbatim>\<open>Literal\<close> and that is neither \<^verbatim>\<open>"Final Answer"\<close> nor \<^verbatim>\<open>ask_user_tool\<close>, the tool map
  built from the six tools of \<^verbatim>\<open>get_tools\<close> has a tool of that name: the observation is
  the outcome of invoking this tool (its result, or the tool-error text of line 325 for
  an \<^verbatim>\<open>Exception\<close>; any other exception leaves the run), and the "tool not found"
  observation of line 327 is not produced.
\<close>

theorem schema_valid_decision_is_dispatched:
  assumes "Action_validates a"
    and "tool a \<noteq> ''Final Answer''"
    and "tool a \<noteq> ''ask_user_tool''"
  shows "\<exists>t. build_tool_map (get_tools search calculator wolfram_alpha blog_template ask_user create_study_plan) (tool a)
               = Some t
             \<and> name t = tool a
             \<and> observe (build_tool_map (get_tools search calculator wolfram_alpha blog_template ask_user create_study_plan)) i a
                 = (case invoke t i (tool_input a) of
                      Inr observation \<Rightarrow> Inr observation
                    | Inl e \<Rightarrow>
                        if is_Exception e then Inr (PyStr (MSG_TOOL_ERROR @ exn_str e)) else Inl e,
                    [InvokeCall (tool a) (tool_input a)])"
proof -
  let ?tools = "get_tools search calculator wolfram_alpha blog_template ask_user create_study_plan"
  from assms have "tool a \<in> name ` set ?tools"
    by (auto simp: Action_validates_def Action_tool_literals_def get_tools_def)
  then have "tool a \<in> dom (build_tool_map ?tools)"
    by (simp add: dom_build_tool_map)
  then obtain t where t: "build_tool_map ?tools (tool a) = Some t"
    by blast
  then have "name t = tool a"
    using build_tool_map_name by blast
  moreover have "observe (build_tool_map ?tools) i a
                 = (case invoke t i (tool_input a) of
                      Inr observation \<Rightarrow> Inr observation
                    | Inl e \<Rightarrow>
                        if is_Exception e then Inr (PyStr (MSG_TOOL_ERROR @ exn_str e)) else Inl e,
                    [InvokeCall (tool a) (tool_input a)])"
    using t by (simp add: observe_def Let_def)
  ultimately show ?thesis using t by blast
qed

theorem schema_valid_decision_is_dispatched_witness:
  "Action_validates calculate
   \<and> tool calculate \<noteq> ''Final Answer''
   \<and> tool calculate \<noteq> ''ask_user_tool''
   \<and> (\<exists>t. build_tool_map demo_tools (tool calculate) = Some t
          \<and> name t = ''calculator_tool''
          \<and> observe (build_tool_map demo_tools) 0 calculate
              = (case invoke t 0 (tool_input calculate) of
                   Inr observation \<Rightarrow> Inr observation
                 | Inl e \<Rightarrow>
                     if is_Exception e then Inr (PyStr (MSG_TOOL_ERROR @ exn_str e)) else Inl e,
                 [InvokeCall ''calculator_tool'' (PyStr ''2+2'')]))"
proof -
  have v: "Action_validates calculate"
    by (simp add: Action_validates_def Action_tool_literals_def calculate_def)
  have t: "tool calculate \<noteq> ''Final Answer''" "tool calculate \<noteq> ''ask_user_tool''"
    by (simp_all add: calculate_def)
  from schema_valid_decision_is_dispatched [OF v t, of "returning ''[]''" "returning ''4''" "raising ''HTTP Error 503''"
      "returning ''## title''" "returning ''?''" "returning ''plan''" 0]
  have "\<exists>t. build_tool_map demo_tools (tool calculate) = Some t
          \<and> name t = ''calculator_tool''
          \<and> observe (build_tool_map demo_tools) 0 calculate
              = (case invoke t 0 (tool_input calculate) of
                   Inr observation \<Rightarrow> Inr observation
                 | Inl e \<Rightarrow>
                     if is_Exception e then Inr (PyStr (MSG_TOOL_ERROR @ exn_str e)) else Inl e,
                 [InvokeCall ''calculator_tool'' (PyStr ''2+2'')])"
    by (simp add: demo_tools_def calculate_def)
  with v t show ?thesis by blast
qed

end
